theory Spec2Isabelle
  imports Main "HOL-Library.Sublist"
begin

section \<open>JavaScript values\<close>

text \<open>
  The service is two Express programs (an SDK-based one and a REST-based one, both in
  \<^verbatim>\<open>src/unnamed/part_000\<close>). Everything they handle is a JavaScript value that was
  decoded from JSON (the request body, the reply of the model endpoint) or read from the
  process environment. A number is carried as its canonical \<^verbatim>\<open>Number::toString\<close>
  rendering: the programs only convert numbers to text, test their truthiness and
  serialise them, and all three are functions of that rendering. An object is the list of
  its own properties in enumeration order (keys distinct); a decoded JSON value has no
  callable property. Strings are lists of 8-bit characters.
\<close>

datatype jsval =
    JUndefined
  | JNull
  | JBool bool
  | JNum string
  | JStr string
  | JArr "jsval list"
  | JObj "(string \<times> jsval) list"

text \<open>
  What can be thrown: a \<^verbatim>\<open>TypeError\<close> of the language itself, an
  \<^verbatim>\<open>new Error(message)\<close> built by the code, and a rejection by an external
  collaborator (identity helper, \<^verbatim>\<open>fetch\<close>, the SDK client, the JSON decoder).
\<close>

datatype js_error = TypeError | Error string | Rejected string

definition bind_err :: "'e + 'a \<Rightarrow> ('a \<Rightarrow> 'e + 'b) \<Rightarrow> 'e + 'b" where
  "bind_err m f = (case m of Inl e \<Rightarrow> Inl e | Inr x \<Rightarrow> f x)"

text \<open>\<^verbatim>\<open>ToBoolean\<close>: undefined, null, false, 0, NaN and the empty string are falsy.\<close>

fun truthy :: "jsval \<Rightarrow> bool" where
  "truthy JUndefined = False"
| "truthy JNull = False"
| "truthy (JBool b) = b"
| "truthy (JNum s) = (s \<noteq> ''0'' \<and> s \<noteq> ''NaN'')"
| "truthy (JStr s) = (s \<noteq> [])"
| "truthy (JArr xs) = True"
| "truthy (JObj kvs) = True"

text \<open>\<^verbatim>\<open>a || b\<close>\<close>

definition or_else :: "jsval \<Rightarrow> jsval \<Rightarrow> jsval" where
  "or_else a b = (if truthy a then a else b)"

definition nullish :: "jsval \<Rightarrow> bool" where
  "nullish v = (v = JUndefined \<or> v = JNull)"

text \<open>
  \<^verbatim>\<open>a === b\<close>. Arrays and objects compare by identity; the only comparisons in the
  programs are of a freshly decoded value with an unrelated one, so two arrays or two
  objects are never identical there. NaN differs from itself.
\<close>

fun strict_eq :: "jsval \<Rightarrow> jsval \<Rightarrow> bool" where
  "strict_eq (JArr xs) b = False"
| "strict_eq (JObj kvs) b = False"
| "strict_eq (JNum s) b = (s \<noteq> ''NaN'' \<and> b = JNum s)"
| "strict_eq a b = (a = b)"

text \<open>An own property of an object, \<^verbatim>\<open>undefined\<close> when there is none.\<close>

definition own :: "(string \<times> jsval) list \<Rightarrow> string \<Rightarrow> jsval" where
  "own kvs k = (case map_of kvs k of None \<Rightarrow> JUndefined | Some v \<Rightarrow> v)"

text \<open>
  \<^verbatim>\<open>v.k\<close> for the property names the programs read (\<^verbatim>\<open>title\<close>, \<^verbatim>\<open>note_text\<close>,
  \<^verbatim>\<open>queryBody\<close>, \<^verbatim>\<open>fields\<close>, \<^verbatim>\<open>queryData\<close>, \<^verbatim>\<open>response\<close>, \<^verbatim>\<open>candidates\<close>,
  \<^verbatim>\<open>content\<close>, \<^verbatim>\<open>parts\<close>, \<^verbatim>\<open>text\<close>, \<^verbatim>\<open>error\<close>, \<^verbatim>\<open>message\<close>): none of them is
  inherited from a prototype, so only an object's own properties can answer; reading a
  property of \<^verbatim>\<open>undefined\<close> or \<^verbatim>\<open>null\<close> throws.
\<close>

fun get_prop :: "jsval \<Rightarrow> string \<Rightarrow> js_error + jsval" where
  "get_prop JUndefined k = Inl TypeError"
| "get_prop JNull k = Inl TypeError"
| "get_prop (JObj kvs) k = Inr (own kvs k)"
| "get_prop v k = Inr JUndefined"

text \<open>\<^verbatim>\<open>v[0]\<close>\<close>

fun first_elem :: "jsval \<Rightarrow> js_error + jsval" where
  "first_elem JUndefined = Inl TypeError"
| "first_elem JNull = Inl TypeError"
| "first_elem (JArr []) = Inr JUndefined"
| "first_elem (JArr (x # xs)) = Inr x"
| "first_elem (JObj kvs) = Inr (own kvs ''0'')"
| "first_elem (JStr []) = Inr JUndefined"
| "first_elem (JStr (c # cs)) = Inr (JStr [c])"
| "first_elem v = Inr JUndefined"

text \<open>The separator-joined concatenation that \<^verbatim>\<open>Array.prototype.join\<close> builds.\<close>

fun join_with :: "string \<Rightarrow> string list \<Rightarrow> string" where
  "join_with sep [] = []"
| "join_with sep [s] = s"
| "join_with sep (s # t # ts) = s @ sep @ join_with sep (t # ts)"

text \<open>
  \<^verbatim>\<open>ToString\<close>, as a template literal's \<^verbatim>\<open>${v}\<close> and string concatenation apply it.
  An array renders as its elements joined by commas, \<^verbatim>\<open>undefined\<close> and \<^verbatim>\<open>null\<close>
  elements as empty text. A decoded object renders through
  \<^verbatim>\<open>Object.prototype.toString\<close>, unless it has an own property \<^verbatim>\<open>toString\<close>: that
  one is not callable, \<^verbatim>\<open>valueOf\<close> yields no primitive, and the conversion throws.
\<close>

fun to_string :: "jsval \<Rightarrow> js_error + string"
  and elem_strings :: "jsval list \<Rightarrow> js_error + string list" where
  "to_string JUndefined = Inr ''undefined''"
| "to_string JNull = Inr ''null''"
| "to_string (JBool b) = Inr (if b then ''true'' else ''false'')"
| "to_string (JNum s) = Inr s"
| "to_string (JStr s) = Inr s"
| "to_string (JArr xs) =
     (case elem_strings xs of Inl e \<Rightarrow> Inl e | Inr ss \<Rightarrow> Inr (join_with '','' ss))"
| "to_string (JObj kvs) =
     (if map_of kvs ''toString'' = None then Inr ''[object Object]'' else Inl TypeError)"
| "elem_strings [] = Inr []"
| "elem_strings (x # xs) =
     (case (if x = JUndefined \<or> x = JNull then Inr [] else to_string x) of
        Inl e \<Rightarrow> Inl e
      | Inr s \<Rightarrow> (case elem_strings xs of Inl e \<Rightarrow> Inl e | Inr ss \<Rightarrow> Inr (s # ss)))"

text \<open>
  \<^verbatim>\<open>v.join(sep)\<close>: only an array has the method; on \<^verbatim>\<open>undefined\<close> and
  \<^verbatim>\<open>null\<close> the property read throws, on anything else the call of a non-function does.
\<close>

fun call_join :: "jsval \<Rightarrow> string \<Rightarrow> js_error + string" where
  "call_join (JArr xs) sep =
     (case elem_strings xs of Inl e \<Rightarrow> Inl e | Inr ss \<Rightarrow> Inr (join_with sep ss))"
| "call_join v sep = Inl TypeError"

subsection \<open>\<^verbatim>\<open>JSON.stringify\<close>\<close>

definition hex_digit :: "nat \<Rightarrow> char" where
  "hex_digit n = ''0123456789abcdef'' ! n"

definition json_quote_char :: "char \<Rightarrow> string" where
  "json_quote_char c =
     (if c = CHR 0x22 then [CHR 0x5C, CHR 0x22]
      else if c = CHR 0x5C then [CHR 0x5C, CHR 0x5C]
      else if c = CHR 0x08 then [CHR 0x5C, CHR ''b'']
      else if c = CHR 0x0C then [CHR 0x5C, CHR ''f'']
      else if c = CHR 0x0A then [CHR 0x5C, CHR ''n'']
      else if c = CHR 0x0D then [CHR 0x5C, CHR ''r'']
      else if c = CHR 0x09 then [CHR 0x5C, CHR ''t'']
      else if (of_char c :: nat) < 32
        then [CHR 0x5C, CHR ''u'', CHR ''0'', CHR ''0'',
              hex_digit ((of_char c :: nat) div 16), hex_digit ((of_char c :: nat) mod 16)]
      else [c])"

definition json_quote :: "string \<Rightarrow> string" where
  "json_quote s = [CHR 0x22] @ concat (map json_quote_char s) @ [CHR 0x22]"

text \<open>
  \<^verbatim>\<open>JSON.stringify(v)\<close> with no replacer and no indentation. The result is
  \<^verbatim>\<open>undefined\<close> (here \<open>None\<close>) for \<^verbatim>\<open>undefined\<close>; inside an array
  \<^verbatim>\<open>undefined\<close> is written \<^verbatim>\<open>null\<close>, inside an object the property is left out.
\<close>

fun json_stringify :: "jsval \<Rightarrow> string option"
  and json_elems :: "jsval list \<Rightarrow> string list"
  and json_members :: "(string \<times> jsval) list \<Rightarrow> string list" where
  "json_stringify JUndefined = None"
| "json_stringify JNull = Some ''null''"
| "json_stringify (JBool b) = Some (if b then ''true'' else ''false'')"
| "json_stringify (JNum s) =
     Some (if s = ''NaN'' \<or> s = ''Infinity'' \<or> s = ''-Infinity'' then ''null'' else s)"
| "json_stringify (JStr s) = Some (json_quote s)"
| "json_stringify (JArr xs) = Some (''['' @ join_with '','' (json_elems xs) @ '']'')"
| "json_stringify (JObj kvs) = Some (''{'' @ join_with '','' (json_members kvs) @ ''}'')"
| "json_elems [] = []"
| "json_elems (x # xs) =
     (case json_stringify x of None \<Rightarrow> ''null'' | Some s \<Rightarrow> s) # json_elems xs"
| "json_members [] = []"
| "json_members ((k, v) # kvs) =
     (case json_stringify v of None \<Rightarrow> json_members kvs
      | Some s \<Rightarrow> (json_quote k @ '':'' @ s) # json_members kvs)"

text \<open>Decimal rendering of a natural number (an HTTP status in a message).\<close>

fun show_nat :: "nat \<Rightarrow> string" where
  "show_nat n =
     (if n < 10 then [''0123456789'' ! n]
      else show_nat (n div 10) @ [''0123456789'' ! (n mod 10)])"

declare show_nat.simps [simp del]

section \<open>The fixed text of the prompts\<close>

text \<open>
  Each prompt is a template literal: fixed text with \<^verbatim>\<open>${...}\<close> places. The constants
  below are the fixed pieces between the places, in order, with the escapes of the source
  resolved (\<^verbatim>\<open>\n\<close> is a line feed, an escaped backtick is a backtick).

  The SDK program, as it is in the source, does not parse: inside the template literals
  of lines 115-152 (\<^verbatim>\<open>queryPrompt\<close>) and 221-248 (\<^verbatim>\<open>querySuggestionsPromptData\<close>)
  backticks are written without the escape (lines 125-129, 228 and 233-235), and the
  first of them closes the literal. The constants \<open>sdk_queryPrompt_1\<close> and
  \<open>sdk_querySuggestionsPromptData_1\<close> to \<open>sdk_querySuggestionsPromptData_6\<close> hold the
  text these two literals are meant to hold, each such backtick read as the character it
  stands for, as the REST program spells it with the escape. The SDK templates of lines
  110-114 (\<^verbatim>\<open>context\<close>) and 175-209 (\<^verbatim>\<open>finalPromptData\<close>) contain no backtick and
  are taken as they are, as are all templates of the REST program.
\<close>

definition sdk_context_1 :: string where
  \<open>sdk_context_1 =
   ''\<newline>'' @
   ''    Summary style/specialized instructions: ''\<close>

definition sdk_context_2 :: string where
  \<open>sdk_context_2 =
   ''\<newline>'' @
   ''    Dashboard Detail: ''\<close>

definition sdk_context_3 :: string where
  \<open>sdk_context_3 =
   '' \<newline>'' @
   ''\<newline>'' @
   ''    Query Details:  "Query Title: ''\<close>

definition sdk_context_4 :: string where
  \<open>sdk_context_4 =
   '' \<newline>'' @
   '' ''\<close>

definition sdk_context_5 :: string where
  \<open>sdk_context_5 =
   '' \<newline>'' @
   '' Query Fields: ''\<close>

definition sdk_context_6 :: string where
  \<open>sdk_context_6 =
   '' \<newline>'' @
   '' Query Data: ''\<close>

definition sdk_context_7 :: string where
  \<open>sdk_context_7 =
   '' \<newline>'' @
   ''"\<newline>'' @
   ''    ''\<close>

definition sdk_queryPrompt_1 :: string where
  \<open>sdk_queryPrompt_1 =
   ''\<newline>'' @
   ''    You are an expert Looker dashboard analyst tasked with summarizing dashboard queries and providing actionable next steps in Markdown format.\<newline>'' @
   ''\<newline>'' @
   ''    **Strict Formatting and Content Requirements:**\<newline>'' @
   ''\<newline>'' @
   ''    * **Markdown Output:** All responses must be formatted using Markdown. Supported elements include headings, bold, italic, links, tables, lists, code blocks, and blockquotes.\<newline>'' @
   ''    * **No Images:** Do not include or attempt to render images.\<newline>'' @
   ''    * **Numerical Formatting:** Format numerical values as percentages or dollar amounts (rounded to the nearest cent).\<newline>'' @
   ''    * **No Indentation:** Do not indent any part of your response.\<newline>'' @
   ''    * **Query-Specific Sections:** Each dashboard query summary should adhere to the following structure, starting on a new line:\<newline>'' @
   ''        * `## Query Name`: Use the "Query Title" from the provided `context`.\<newline>'' @
   ''        * `Description`: A concise (2-4 sentences) paragraph describing the query.\<newline>'' @
   ''        * `> Summary`: A blockquote (3-5 sentences) summarizing the query results for user comprehension.\<newline>'' @
   ''        * `## Next Steps`: A bulleted list of 2-3 actionable next steps based on the query summary.\<newline>'' @
   ''    * **Newlines and Dividers:** Each query summary must start on a new line and end with a horizontal divider (`---`).\<newline>'' @
   ''\<newline>'' @
   ''    **Context:**\<newline>'' @
   ''    \<newline>'' @
   ''    '' @ [CHR 0x27, CHR 0x27, CHR 0x27] @ ''\<newline>'' @
   ''    Context: ''\<close>

definition sdk_queryPrompt_2 :: string where
  \<open>sdk_queryPrompt_2 =
   ''\<newline>'' @
   ''    '' @ [CHR 0x27, CHR 0x27, CHR 0x27] @ ''\<newline>'' @
   ''\<newline>'' @
   ''    **Example Output (Use as a Template, Not Verbatim):**\<newline>'' @
   ''\<newline>'' @
   ''    '' @ [CHR 0x27, CHR 0x27, CHR 0x27] @ ''markdown\<newline>'' @
   ''    ## Web Traffic Over Time\<newline>'' @
   ''\<newline>'' @
   ''    This query details the amount of web traffic received to the website over the past 6 months. It includes a web traffic source field of organic, search, and display, as well as an amount field detailing the number of users from those sources.\<newline>'' @
   ''\<newline>'' @
   ''    > It appears that search has consistently driven the highest user traffic, with 9875 users in the past month and a peak in December at 1000 unique users. Organic traffic is the second highest, while display traffic is significantly lower. Display traffic started strong but declined steadily. There was a notable 23% spike in organic traffic in March.\<newline>'' @
   ''\<newline>'' @
   ''    ## Next Steps\<newline>'' @
   ''    * Investigate the 23% organic traffic spike in March to identify potential causes (e.g., marketing campaign, website error).\<newline>'' @
   ''    * Segment search traffic by campaign source to identify high-performing strategies.\<newline>'' @
   ''    * Analyze display traffic patterns to determine the factors contributing to its decline and explore optimization strategies.\<newline>'' @
   ''    ---\<newline>'' @
   ''    '' @ [CHR 0x27, CHR 0x27, CHR 0x27] @ ''\<newline>'' @
   ''    ''\<close>

definition sdk_finalPromptData_1 :: string where
  \<open>sdk_finalPromptData_1 =
   ''\<newline>'' @
   ''    You are a specialized answering assistant that can summarize a Looker dashboard and the underlying data and propose operational next steps drawing conclusions from the Query Details listed above. Follow the instructions below:\<newline>'' @
   ''\<newline>'' @
   ''    Please highlight the findings of all of the query data here. All responses MUST be based on the actual information returned by these queries: \<newline>'' @
   ''                            \<newline>'' @
   ''    data: ''\<close>

definition sdk_finalPromptData_2 :: string where
  \<open>sdk_finalPromptData_2 =
   ''\<newline>'' @
   ''\<newline>'' @
   ''    For example, use the names of the locations in the data series (like Seattle, Indianapolis, Chicago, etc) in recommendations regarding locations. Use the name of a process if discussing processes. Don't use row numbers to refer to any facility, process or location. This information should be sourced from the above data.\<newline>'' @
   ''    Surface the most important or notable details and combine next steps recommendations into one bulleted list of 2-6 suggestions. \<newline>'' @
   '' \<newline>'' @
   ''    --------------\<newline>'' @
   ''    Here is an output format Example:\<newline>'' @
   ''        ---------------\<newline>'' @
   ''        \<newline>'' @
   ''        ## Web Traffic Over Time \<newline>'' @
   ''\<newline>'' @
   ''        This query details the amount of web traffic received to the website over the past 6 months. It includes a web traffic source field of organic, search and display\<newline>'' @
   ''        as well as an amount field detailing the amount of people coming from those sources to the website. \<newline>'' @
   ''\<newline>'' @
   ''        \<newline>'' @
   ''        > It looks like search historically has been driving the most user traffic with 9875 users over the past month with peak traffic happening in december at 1000 unique users.\<newline>'' @
   ''        Organic comes in second and display a distant 3rd. It seems that display got off to a decent start in the year, but has decreased in volume consistently into the end of the year.\<newline>'' @
   ''        There appears to be a large spike in organic traffic during the month of March a 23% increase from the rest of the year.\<newline>'' @
   ''\<newline>'' @
   ''        \<newline>'' @
   ''\<newline>'' @
   ''        \<newline>'' @
   ''        ## Next Steps\<newline>'' @
   ''        * Look into the data for the month of March to determine if there was an issue in reporting and/or what sort of local events could have caused the spike\<newline>'' @
   ''        * Continue investing into search advertisement with common digital marketing strategies. IT would also be good to identify/breakdown this number by campaign source and see what strategies have been working well for Search.\<newline>'' @
   ''        * Display seems to be dropping off and variable. Use only during select months and optimize for heavily trafficed areas with a good demographic for the site retention.\<newline>'' @
   ''\<newline>'' @
   ''        \<newline>'' @
   ''\<newline>'' @
   ''    -----------\<newline>'' @
   ''\<newline>'' @
   ''    Please add actionable next steps, both for immediate intervention, improved data gathering and further analysis of existing data.\<newline>'' @
   ''    Here are some tips for creating actionable next steps: \<newline>'' @
   ''\<newline>'' @
   ''    -----------\<newline>'' @
   ''    ''\<close>

definition sdk_finalPromptData_3 :: string where
  \<open>sdk_finalPromptData_3 =
   ''\<newline>'' @
   ''    -----------\<newline>'' @
   ''    \<newline>'' @
   ''    ''\<close>

definition sdk_querySuggestionsPromptData_1 :: string where
  \<open>sdk_querySuggestionsPromptData_1 =
   ''\<newline>'' @
   ''    You are an expert Looker analyst tasked with generating actionable next-step investigation queries in JSON format.\<newline>'' @
   ''\<newline>'' @
   ''    Your goal is to provide a JSON array of strings, where each string represents a potential Looker query or data exploration suggestion. These suggestions should directly address the "next steps" in analysis, guided by the following criteria:\<newline>'' @
   ''\<newline>'' @
   ''    * **Actionable and Looker-Executable:** Queries must be feasible within the Looker platform.\<newline>'' @
   ''    * **Targeted Investigation:** Queries should build upon the provided queryResults and querySummaries, avoiding repetition of existing analyses.\<newline>'' @
   ''    * **Alignment with Next Steps:** Queries must directly relate to the analytical "next steps" outlined in `''\<close>

definition sdk_querySuggestionsPromptData_2 :: string where
  \<open>sdk_querySuggestionsPromptData_2 =
   ''` and the context provided within `''\<close>

definition sdk_querySuggestionsPromptData_3 :: string where
  \<open>sdk_querySuggestionsPromptData_3 =
   ''`.\<newline>'' @
   ''    * **Date Filtering:** Include a date filter in every query. If a relevant date range isn't specified in the context, default to the "last 30 days."\<newline>'' @
   ''\<newline>'' @
   ''    Here's the data context:\<newline>'' @
   ''\<newline>'' @
   ''    * **Current Data:** `''\<close>

definition sdk_querySuggestionsPromptData_4 :: string where
  \<open>sdk_querySuggestionsPromptData_4 =
   ''`\<newline>'' @
   ''    * **Previous Analysis and Next Steps:** `''\<close>

definition sdk_querySuggestionsPromptData_5 :: string where
  \<open>sdk_querySuggestionsPromptData_5 =
   ''`\<newline>'' @
   ''    * **Next Step Instructions:** `''\<close>

definition sdk_querySuggestionsPromptData_6 :: string where
  \<open>sdk_querySuggestionsPromptData_6 =
   ''`\<newline>'' @
   ''\<newline>'' @
   ''    Output Format:\<newline>'' @
   ''\<newline>'' @
   ''    Provide your response in the following JSON format, containing exactly three querySuggestion elements:\<newline>'' @
   ''\<newline>'' @
   ''    '' @ [CHR 0x27, CHR 0x27, CHR 0x27] @ ''json\<newline>'' @
   ''    [\<newline>'' @
   ''        {"querySuggestion": "Show me the top XXX entries for YYY on October 13th, 2024"},\<newline>'' @
   ''        {"querySuggestion": "What are the lowest values for ZZZ, grouped by AAA, in the last 30 days?"},\<newline>'' @
   ''        {"querySuggestion": "What is the productivity and standard deviation for the XXX facility for the past 3 months?"}\<newline>'' @
   ''    ]\<newline>'' @
   ''    '' @ [CHR 0x27, CHR 0x27, CHR 0x27] @ ''\<newline>'' @
   ''    ''\<close>

definition rest_queryPrompt_1 :: string where
  \<open>rest_queryPrompt_1 =
   ''\<newline>'' @
   ''    You are an expert Looker dashboard analyst tasked with summarizing dashboard queries and providing actionable next steps in Markdown format.\<newline>'' @
   ''\<newline>'' @
   ''    **Strict Formatting and Content Requirements:**\<newline>'' @
   ''\<newline>'' @
   ''    * **Markdown Output:** All responses must be formatted using Markdown. Supported elements include headings, bold, italic, links, tables, lists, code blocks, and blockquotes.\<newline>'' @
   ''    * **No Images:** Do not include or attempt to render images.\<newline>'' @
   ''    * **Numerical Formatting:** Format numerical values as percentages or dollar amounts (rounded to the nearest cent).\<newline>'' @
   ''    * **No Indentation:** Do not indent any part of your response.\<newline>'' @
   ''    * **Query-Specific Sections:** Each dashboard query summary should adhere to the following structure, starting on a new line:\<newline>'' @
   ''        * `## Query Name`: Use the "Query Title" from the provided context.\<newline>'' @
   ''        * `Description`: A concise (2-4 sentences) paragraph describing the query.\<newline>'' @
   ''        * `> Summary`: A blockquote (3-5 sentences) summarizing the query results for user comprehension.\<newline>'' @
   ''        * `## Next Steps`: A bulleted list of 2-3 actionable next steps based on the query summary.\<newline>'' @
   ''    * **Newlines and Dividers:** Each query summary must start on a new line and end with a horizontal divider (`---`).\<newline>'' @
   ''\<newline>'' @
   ''    **Context:**\<newline>'' @
   ''    \<newline>'' @
   ''    Summary style/specialized instructions: ''\<close>

definition rest_queryPrompt_2 :: string where
  \<open>rest_queryPrompt_2 =
   ''\<newline>'' @
   ''    Dashboard Detail: ''\<close>

definition rest_queryPrompt_3 :: string where
  \<open>rest_queryPrompt_3 =
   '' \<newline>'' @
   ''\<newline>'' @
   ''    Query Details: "Query Title: ''\<close>

definition rest_queryPrompt_4 :: string where
  \<open>rest_queryPrompt_4 =
   '' \<newline>'' @
   ''    ''\<close>

definition rest_queryPrompt_5 :: string where
  \<open>rest_queryPrompt_5 =
   '' \<newline>'' @
   ''    Query Fields: ''\<close>

definition rest_queryPrompt_6 :: string where
  \<open>rest_queryPrompt_6 =
   '' \<newline>'' @
   ''    Query Data: ''\<close>

definition rest_queryPrompt_7 :: string where
  \<open>rest_queryPrompt_7 =
   ''"\<newline>'' @
   ''\<newline>'' @
   ''    **Example Output (Use as a Template, Not Verbatim):**\<newline>'' @
   ''\<newline>'' @
   ''    ```markdown\<newline>'' @
   ''    ## Web Traffic Over Time\<newline>'' @
   ''\<newline>'' @
   ''    This query details the amount of web traffic received to the website over the past 6 months. It includes a web traffic source field of organic, search, and display, as well as an amount field detailing the number of users from those sources.\<newline>'' @
   ''\<newline>'' @
   ''    > It appears that search has consistently driven the highest user traffic, with 9875 users in the past month and a peak in December at 1000 unique users. Organic traffic is the second highest, while display traffic is significantly lower. Display traffic started strong but declined steadily. There was a notable 23% spike in organic traffic in March.\<newline>'' @
   ''\<newline>'' @
   ''    ## Next Steps\<newline>'' @
   ''    * Investigate the 23% organic traffic spike in March to identify potential causes (e.g., marketing campaign, website error).\<newline>'' @
   ''    * Segment search traffic by campaign source to identify high-performing strategies.\<newline>'' @
   ''    * Analyze display traffic patterns to determine the factors contributing to its decline and explore optimization strategies.\<newline>'' @
   ''    ---\<newline>'' @
   ''    ```\<newline>'' @
   ''    ''\<close>

definition rest_finalPromptData_1 :: string where
  \<open>rest_finalPromptData_1 =
   ''\<newline>'' @
   ''    You are a specialized answering assistant that can summarize a Looker dashboard and the underlying data and propose operational next steps drawing conclusions from the Query Details listed above. Follow the instructions below:\<newline>'' @
   ''\<newline>'' @
   ''    Please highlight the findings of all of the query data here. All responses MUST be based on the actual information returned by these queries: \<newline>'' @
   ''                                     \<newline>'' @
   ''    data: ''\<close>

definition rest_finalPromptData_2 :: string where
  \<open>rest_finalPromptData_2 =
   ''\<newline>'' @
   ''\<newline>'' @
   ''    For example, use the names of the locations in the data series (like Seattle, Indianapolis, Chicago, etc) in recommendations regarding locations. Use the name of a process if discussing processes. Don't use row numbers to refer to any facility, process or location. This information should be sourced from the above data.\<newline>'' @
   ''    Surface the most important or notable details and combine next steps recommendations into one bulleted list of 2-6 suggestions. \<newline>'' @
   ''\<newline>'' @
   ''    --------------\<newline>'' @
   ''    Here is an output format Example:\<newline>'' @
   ''    ----------------\<newline>'' @
   ''    \<newline>'' @
   ''    ## Web Traffic Over Time \<newline>'' @
   ''\<newline>'' @
   ''    This query details the amount of web traffic received to the website over the past 6 months. It includes a web traffic source field of organic, search and display\<newline>'' @
   ''    as well as an amount field detailing the amount of people coming from those sources to the website. \<newline>'' @
   ''\<newline>'' @
   ''    \<newline>'' @
   ''    > It looks like search historically has been driving the most user traffic with 9875 users over the past month with peak traffic happening in december at 1000 unique users.\<newline>'' @
   ''    Organic comes in second and display a distant 3rd. It seems that display got off to a decent start in the year, but has decreased in volume consistently into the end of the year.\<newline>'' @
   ''    There appears to be a large spike in organic traffic during the month of March a 23% increase from the rest of the year.\<newline>'' @
   ''\<newline>'' @
   ''    \<newline>'' @
   ''\<newline>'' @
   ''    \<newline>'' @
   ''    ## Next Steps\<newline>'' @
   ''    * Look into the data for the month of March to determine if there was an issue in reporting and/or what sort of local events could have caused the spike\<newline>'' @
   ''    * Continue investing into search advertisement with common digital marketing strategies. IT would also be good to identify/breakdown this number by campaign source and see what strategies have been working well for Search.\<newline>'' @
   ''    * Display seems to be dropping off and variable. Use only during select months and optimize for heavily trafficed areas with a good demographic for the site retention.\<newline>'' @
   ''\<newline>'' @
   ''    \<newline>'' @
   ''\<newline>'' @
   ''    -----------\<newline>'' @
   ''\<newline>'' @
   ''    Please add actionable next steps, both for immediate intervention, improved data gathering and further analysis of existing data.\<newline>'' @
   ''    Here are some tips for creating actionable next steps: \<newline>'' @
   ''\<newline>'' @
   ''    -----------\<newline>'' @
   ''    ''\<close>

definition rest_finalPromptData_3 :: string where
  \<open>rest_finalPromptData_3 =
   ''\<newline>'' @
   ''    -----------\<newline>'' @
   ''    \<newline>'' @
   ''    ''\<close>

definition rest_querySuggestionsPromptData_1 :: string where
  \<open>rest_querySuggestionsPromptData_1 =
   ''\<newline>'' @
   ''    You are an expert Looker analyst tasked with generating actionable next-step investigation queries in JSON format.\<newline>'' @
   ''\<newline>'' @
   ''    Your goal is to provide a JSON array of strings, where each string represents a potential Looker query or data exploration suggestion. These suggestions should directly address the "next steps" in analysis, guided by the following criteria:\<newline>'' @
   ''\<newline>'' @
   ''    * **Actionable and Looker-Executable:** Queries must be feasible within the Looker platform.\<newline>'' @
   ''    * **Targeted Investigation:** Queries should build upon the provided queryResults and querySummaries, avoiding repetition of existing analyses.\<newline>'' @
   ''    * **Alignment with Next Steps:** Queries must directly relate to the analytical "next steps" outlined in `''\<close>

definition rest_querySuggestionsPromptData_2 :: string where
  \<open>rest_querySuggestionsPromptData_2 =
   ''` and the context provided within `''\<close>

definition rest_querySuggestionsPromptData_3 :: string where
  \<open>rest_querySuggestionsPromptData_3 =
   ''`.\<newline>'' @
   ''    * **Date Filtering:** Include a date filter in every query. If a relevant date range isn't specified in the context, default to the "last 30 days."\<newline>'' @
   ''\<newline>'' @
   ''    Here's the data context:\<newline>'' @
   ''\<newline>'' @
   ''    * **Current Data:** `''\<close>

definition rest_querySuggestionsPromptData_4 :: string where
  \<open>rest_querySuggestionsPromptData_4 =
   ''`\<newline>'' @
   ''    * **Previous Analysis and Next Steps:** `''\<close>

definition rest_querySuggestionsPromptData_5 :: string where
  \<open>rest_querySuggestionsPromptData_5 =
   ''`\<newline>'' @
   ''    * **Next Step Instructions:** `''\<close>

definition rest_querySuggestionsPromptData_6 :: string where
  \<open>rest_querySuggestionsPromptData_6 =
   ''`\<newline>'' @
   ''\<newline>'' @
   ''    Output Format:\<newline>'' @
   ''\<newline>'' @
   ''    Provide your response in the following JSON format, containing exactly three querySuggestion elements:\<newline>'' @
   ''\<newline>'' @
   ''    ```json\<newline>'' @
   ''    [\<newline>'' @
   ''        {"querySuggestion": "Show me the top XXX entries for YYY on October 13th, 2024"},\<newline>'' @
   ''        {"querySuggestion": "What are the lowest values for ZZZ, grouped by AAA, in the last 30 days?"},\<newline>'' @
   ''        {"querySuggestion": "What is the productivity and standard deviation for the XXX facility for the past 3 months?"}\<newline>'' @
   ''    ]\<newline>'' @
   ''    ```\<newline>'' @
   ''    ''\<close>

section \<open>Prompt builders\<close>

text \<open>
  The two programs give their functions the same names. Where a name occurs in both, the
  SDK-based program's function carries the prefix \<open>sdk_\<close> and the REST-based program's
  the prefix \<open>rest_\<close>; a template that is built inside a function goes by the name of the
  variable that holds it.
\<close>

subsection \<open>SDK-based variant\<close>

text \<open>
  \<^verbatim>\<open>context\<close> of \<^verbatim>\<open>generateQuerySummary\<close> (SDK variant). The test on the note,
  \<^verbatim>\<open>query.note_text !== '' || query.note_text !== null\<close>, is written as in the source.
\<close>

definition sdk_context :: "jsval \<Rightarrow> jsval \<Rightarrow> jsval \<Rightarrow> js_error + string" where
  "sdk_context query description nextStepsInstructions =
     bind_err (to_string (or_else nextStepsInstructions (JStr ''''))) (\<lambda>instr.
     bind_err (to_string (or_else description (JStr ''''))) (\<lambda>detail.
     bind_err (get_prop query ''title'') (\<lambda>title.
     bind_err (to_string title) (\<lambda>title_s.
     bind_err (get_prop query ''note_text'') (\<lambda>note_text.
     bind_err (if \<not> strict_eq note_text (JStr '''') \<or> \<not> strict_eq note_text JNull
               then bind_err (to_string note_text) (\<lambda>n. Inr (''Query Note: '' @ n))
               else Inr '''') (\<lambda>note.
     bind_err (get_prop query ''queryBody'') (\<lambda>queryBody.
     bind_err (get_prop queryBody ''fields'') (\<lambda>fields.
     bind_err (to_string fields) (\<lambda>fields_s.
     bind_err (get_prop query ''queryData'') (\<lambda>queryData.
     Inr (sdk_context_1 @ instr @ sdk_context_2 @ detail @ sdk_context_3 @ title_s @
          sdk_context_4 @ note @ sdk_context_5 @ fields_s @ sdk_context_6 @
          (case json_stringify queryData of None \<Rightarrow> ''undefined'' | Some s \<Rightarrow> s) @
          sdk_context_7)))))))))))"

text \<open>\<^verbatim>\<open>queryPrompt\<close> of \<^verbatim>\<open>generateQuerySummary\<close> (SDK variant).\<close>

definition sdk_queryPrompt :: "jsval \<Rightarrow> jsval \<Rightarrow> jsval \<Rightarrow> js_error + string" where
  "sdk_queryPrompt query description nextStepsInstructions =
     bind_err (sdk_context query description nextStepsInstructions) (\<lambda>context.
     Inr (sdk_queryPrompt_1 @ context @ sdk_queryPrompt_2))"

text \<open>
  \<^verbatim>\<open>finalPromptData\<close> of \<^verbatim>\<open>generateSummary\<close> (SDK variant), with the
  \<^verbatim>\<open>rawQuerySummaries.join('\n')\<close> that precedes it.
\<close>

definition sdk_finalPromptData :: "jsval \<Rightarrow> jsval \<Rightarrow> js_error + string" where
  "sdk_finalPromptData rawQuerySummaries nextStepsInstructions =
     bind_err (call_join rawQuerySummaries ''\<newline>'') (\<lambda>querySummaries.
     bind_err (to_string nextStepsInstructions) (\<lambda>instr.
     Inr (sdk_finalPromptData_1 @ querySummaries @ sdk_finalPromptData_2 @ instr @
          sdk_finalPromptData_3)))"

text \<open>\<^verbatim>\<open>querySuggestionsPromptData\<close> of \<^verbatim>\<open>generateQuerySuggestions\<close> (SDK variant).\<close>

definition sdk_querySuggestionsPromptData :: "jsval \<Rightarrow> jsval \<Rightarrow> jsval \<Rightarrow> js_error + string" where
  "sdk_querySuggestionsPromptData queryResults querySummaries nextStepsInstructions =
     bind_err (to_string nextStepsInstructions) (\<lambda>instr.
     bind_err (to_string querySummaries) (\<lambda>summaries.
     bind_err (to_string queryResults) (\<lambda>results.
     Inr (sdk_querySuggestionsPromptData_1 @ instr @ sdk_querySuggestionsPromptData_2 @
          summaries @ sdk_querySuggestionsPromptData_3 @ results @
          sdk_querySuggestionsPromptData_4 @ summaries @ sdk_querySuggestionsPromptData_5 @
          instr @ sdk_querySuggestionsPromptData_6))))"

subsection \<open>REST-based variant\<close>

text \<open>
  \<^verbatim>\<open>getQuerySummaryPrompt\<close>. Here the test on the note is
  \<^verbatim>\<open>query.note_text !== '' && query.note_text !== null\<close>.
\<close>

definition getQuerySummaryPrompt :: "jsval \<Rightarrow> jsval \<Rightarrow> jsval \<Rightarrow> js_error + string" where
  "getQuerySummaryPrompt query description nextStepsInstructions =
     bind_err (to_string (or_else nextStepsInstructions (JStr ''''))) (\<lambda>instr.
     bind_err (to_string (or_else description (JStr ''''))) (\<lambda>detail.
     bind_err (get_prop query ''title'') (\<lambda>title.
     bind_err (to_string title) (\<lambda>title_s.
     bind_err (get_prop query ''note_text'') (\<lambda>note_text.
     bind_err (if \<not> strict_eq note_text (JStr '''') \<and> \<not> strict_eq note_text JNull
               then bind_err (to_string note_text) (\<lambda>n. Inr (''Query Note: '' @ n))
               else Inr '''') (\<lambda>note.
     bind_err (get_prop query ''queryBody'') (\<lambda>queryBody.
     bind_err (get_prop queryBody ''fields'') (\<lambda>fields.
     bind_err (to_string fields) (\<lambda>fields_s.
     bind_err (get_prop query ''queryData'') (\<lambda>queryData.
     Inr (rest_queryPrompt_1 @ instr @ rest_queryPrompt_2 @ detail @ rest_queryPrompt_3 @
          title_s @ rest_queryPrompt_4 @ note @ rest_queryPrompt_5 @ fields_s @
          rest_queryPrompt_6 @
          (case json_stringify queryData of None \<Rightarrow> ''undefined'' | Some s \<Rightarrow> s) @
          rest_queryPrompt_7)))))))))))"

text \<open>\<^verbatim>\<open>finalPromptData\<close> of \<^verbatim>\<open>generateSummary\<close> (REST variant).\<close>

definition rest_finalPromptData :: "jsval \<Rightarrow> jsval \<Rightarrow> js_error + string" where
  "rest_finalPromptData querySummaries nextStepsInstructions =
     bind_err (call_join querySummaries ''\<newline>'') (\<lambda>joined.
     bind_err (to_string nextStepsInstructions) (\<lambda>instr.
     Inr (rest_finalPromptData_1 @ joined @ rest_finalPromptData_2 @ instr @
          rest_finalPromptData_3)))"

text \<open>\<^verbatim>\<open>querySuggestionsPromptData\<close> of \<^verbatim>\<open>generateQuerySuggestions\<close> (REST variant).\<close>

definition rest_querySuggestionsPromptData :: "jsval \<Rightarrow> jsval \<Rightarrow> jsval \<Rightarrow> js_error + string" where
  "rest_querySuggestionsPromptData queryResults querySummaries nextStepsInstructions =
     bind_err (to_string nextStepsInstructions) (\<lambda>instr.
     bind_err (to_string querySummaries) (\<lambda>summaries.
     bind_err (to_string queryResults) (\<lambda>results.
     Inr (rest_querySuggestionsPromptData_1 @ instr @ rest_querySuggestionsPromptData_2 @
          summaries @ rest_querySuggestionsPromptData_3 @ results @
          rest_querySuggestionsPromptData_4 @ summaries @ rest_querySuggestionsPromptData_5 @
          instr @ rest_querySuggestionsPromptData_6))))"

section \<open>Model gateway\<close>

text \<open>
  What a request leaves behind besides its response: the lines written to the console,
  the token requests to the identity helper, and the prompts sent to the model.
\<close>

datatype event =
    Log string "jsval list"
  | LogError string js_error
  | TokenRequest
  | ModelCall string

type_synonym 'a outcome = "(js_error + 'a) \<times> event list"

subsection \<open>SDK-based variant\<close>

text \<open>
  \<^verbatim>\<open>generativeModel.generateContent\<close> is the SDK client: given the prompt text (wrapped
  in \<^verbatim>\<open>{contents: [{role: 'user', parts: [{text}]}]}\<close>) the promise rejects or resolves
  with a result object.
\<close>

type_synonym sdk_model = "string \<Rightarrow> js_error + jsval"

text \<open>\<^verbatim>\<open>formattedResp.response.candidates[0].content.parts[0].text\<close>\<close>

definition sdk_text :: "jsval \<Rightarrow> js_error + jsval" where
  "sdk_text formattedResp =
     bind_err (get_prop formattedResp ''response'') (\<lambda>response.
     bind_err (get_prop response ''candidates'') (\<lambda>candidates.
     bind_err (first_elem candidates) (\<lambda>candidate.
     bind_err (get_prop candidate ''content'') (\<lambda>content.
     bind_err (get_prop content ''parts'') (\<lambda>parts.
     bind_err (first_elem parts) (\<lambda>part.
     get_prop part ''text''))))))"

definition sdk_generateQuerySummary ::
  "sdk_model \<Rightarrow> jsval \<Rightarrow> jsval \<Rightarrow> jsval \<Rightarrow> jsval outcome" where
  "sdk_generateQuerySummary generativeModel query description nextStepsInstructions =
     (case sdk_queryPrompt query description nextStepsInstructions of
        Inl e \<Rightarrow> (Inl e, [])
      | Inr queryPrompt \<Rightarrow>
          (bind_err (generativeModel queryPrompt) sdk_text, [ModelCall queryPrompt]))"

definition sdk_generateSummary :: "sdk_model \<Rightarrow> jsval \<Rightarrow> jsval \<Rightarrow> jsval outcome" where
  "sdk_generateSummary generativeModel rawQuerySummaries nextStepsInstructions =
     (case sdk_finalPromptData rawQuerySummaries nextStepsInstructions of
        Inl e \<Rightarrow> (Inl e, [Log [] [rawQuerySummaries]])
      | Inr finalPromptData \<Rightarrow>
          (bind_err (generativeModel finalPromptData) sdk_text,
           [Log [] [rawQuerySummaries], ModelCall finalPromptData]))"

definition sdk_generateQuerySuggestions ::
  "sdk_model \<Rightarrow> jsval \<Rightarrow> jsval \<Rightarrow> jsval \<Rightarrow> jsval outcome" where
  "sdk_generateQuerySuggestions generativeModel queryResults querySummaries nextStepsInstructions =
     (case sdk_querySuggestionsPromptData queryResults querySummaries nextStepsInstructions of
        Inl e \<Rightarrow> (Inl e, [])
      | Inr querySuggestionsPromptData \<Rightarrow>
          (bind_err (generativeModel querySuggestionsPromptData) sdk_text,
           [ModelCall querySuggestionsPromptData]))"

subsection \<open>REST-based variant\<close>

text \<open>
  The reply of \<^verbatim>\<open>fetch\<close>: its status, what \<^verbatim>\<open>response.text()\<close> yields and what
  \<^verbatim>\<open>response.json()\<close> yields (the code reads one of the two). The environment of a
  request is the outcome of the token acquisition and the endpoint, a function of the
  bearer token and the prompt text sent.
\<close>

record http_reply =
  reply_status :: nat
  reply_text :: "js_error + string"
  reply_json :: "js_error + jsval"

record rest_env =
  token_outcome :: "js_error + string"
  fetch :: "string \<Rightarrow> string \<Rightarrow> js_error + http_reply"

text \<open>\<^verbatim>\<open>response.ok\<close>: the status is in the range 200 to 299.\<close>

definition reply_ok :: "http_reply \<Rightarrow> bool" where
  "reply_ok r = (200 \<le> reply_status r \<and> reply_status r \<le> 299)"

text \<open>\<^verbatim>\<open>getAccessToken\<close>: a failure is logged and thrown again.\<close>

definition getAccessToken :: "rest_env \<Rightarrow> string outcome" where
  "getAccessToken env =
     (case token_outcome env of
        Inl error \<Rightarrow> (Inl error, [TokenRequest, LogError ''Error getting access token:'' error])
      | Inr token \<Rightarrow> (Inr token, [TokenRequest]))"

text \<open>\<^verbatim>\<open>data.candidates[0]?.content?.parts[0]?.text || ''\<close>\<close>

definition rest_text :: "jsval \<Rightarrow> js_error + jsval" where
  "rest_text data =
     bind_err (get_prop data ''candidates'') (\<lambda>candidates.
     bind_err (first_elem candidates) (\<lambda>candidate.
     bind_err
       (if nullish candidate then Inr JUndefined
        else bind_err (get_prop candidate ''content'') (\<lambda>content.
             if nullish content then Inr JUndefined
             else bind_err (get_prop content ''parts'') (\<lambda>parts.
                  bind_err (first_elem parts) (\<lambda>part.
                  if nullish part then Inr JUndefined else get_prop part ''text''))))
       (\<lambda>text. Inr (or_else text (JStr '''')))))"

text \<open>
  The part the three REST helpers share word for word: the \<^verbatim>\<open>fetch\<close> of the prompt,
  the test of \<^verbatim>\<open>response.ok\<close>, the test of \<^verbatim>\<open>data.error\<close> and the extraction of
  the text.
\<close>

definition rest_call :: "rest_env \<Rightarrow> string \<Rightarrow> string \<Rightarrow> js_error + jsval" where
  "rest_call env accessToken prompt =
     bind_err (fetch env accessToken prompt) (\<lambda>response.
     if \<not> reply_ok response
     then bind_err (reply_text response) (\<lambda>errorText.
            Inl (Error (''API request failed with status '' @
                        show_nat (reply_status response) @ '': '' @ errorText)))
     else bind_err (reply_json response) (\<lambda>data.
          bind_err (get_prop data ''error'') (\<lambda>error.
          if truthy error
          then bind_err (get_prop error ''message'') (\<lambda>message.
               bind_err (to_string message) (\<lambda>m.
               Inl (Error (''Vertex AI API error: '' @ m))))
          else rest_text data)))"

definition rest_generateQuerySummary ::
  "rest_env \<Rightarrow> jsval \<Rightarrow> jsval \<Rightarrow> jsval \<Rightarrow> jsval outcome" where
  "rest_generateQuerySummary env query description nextStepsInstructions =
     (case getAccessToken env of
        (Inl e, tr) \<Rightarrow> (Inl e, tr)
      | (Inr accessToken, tr) \<Rightarrow>
          (case getQuerySummaryPrompt query description nextStepsInstructions of
             Inl e \<Rightarrow> (Inl e, tr)
           | Inr text \<Rightarrow> (rest_call env accessToken text, tr @ [ModelCall text])))"

definition rest_generateSummary :: "rest_env \<Rightarrow> jsval \<Rightarrow> jsval \<Rightarrow> jsval outcome" where
  "rest_generateSummary env querySummaries nextStepsInstructions =
     (case getAccessToken env of
        (Inl e, tr) \<Rightarrow> (Inl e, tr)
      | (Inr accessToken, tr) \<Rightarrow>
          (case rest_finalPromptData querySummaries nextStepsInstructions of
             Inl e \<Rightarrow> (Inl e, tr)
           | Inr finalPromptData \<Rightarrow>
               (rest_call env accessToken finalPromptData, tr @ [ModelCall finalPromptData])))"

definition rest_generateQuerySuggestions ::
  "rest_env \<Rightarrow> jsval \<Rightarrow> jsval \<Rightarrow> jsval \<Rightarrow> jsval outcome" where
  "rest_generateQuerySuggestions env queryResults querySummaries nextStepsInstructions =
     (case getAccessToken env of
        (Inl e, tr) \<Rightarrow> (Inl e, tr)
      | (Inr accessToken, tr) \<Rightarrow>
          (case rest_querySuggestionsPromptData queryResults querySummaries nextStepsInstructions of
             Inl e \<Rightarrow> (Inl e, tr)
           | Inr querySuggestionsPromptData \<Rightarrow>
               (rest_call env accessToken querySuggestionsPromptData,
                tr @ [ModelCall querySuggestionsPromptData])))"

section \<open>HTTP endpoint layer\<close>

text \<open>
  A request is its decoded JSON body, the property list of an object (what
  \<^verbatim>\<open>express.json()\<close> leaves in \<^verbatim>\<open>req.body\<close>). A response is its status and either the
  text given to \<^verbatim>\<open>send\<close> or the object given to \<^verbatim>\<open>res.json\<close>.
\<close>

type_synonym body = "(string \<times> jsval) list"

datatype payload = Text string | Json "(string \<times> jsval) list"

record response =
  status :: nat
  sent :: payload

type_synonym handled = "response \<times> event list"

datatype route = GenerateQuerySummary | GenerateSummary | GenerateQuerySuggestions

text \<open>\<^verbatim>\<open>process.env.GENAI_CLIENT_SECRET\<close>: a string, or \<^verbatim>\<open>undefined\<close> when unset.\<close>

fun env_value :: "string option \<Rightarrow> jsval" where
  "env_value None = JUndefined"
| "env_value (Some s) = JStr s"

definition forbidden :: response where
  "forbidden = \<lparr>status = 403, sent = Text ''Forbidden: Invalid client secret''\<rparr>"

definition internal_error :: response where
  "internal_error = \<lparr>status = 500, sent = Text ''Internal Server Error''\<rparr>"

text \<open>\<^verbatim>\<open>res.json({ name: value })\<close>, with the default status 200.\<close>

definition res_json :: "string \<Rightarrow> jsval \<Rightarrow> response" where
  "res_json name v = \<lparr>status = 200, sent = Json [(name, v)]\<rparr>"

text \<open>
  The \<^verbatim>\<open>try\<close>/\<^verbatim>\<open>catch\<close> of every route: the result goes into the named field of a
  JSON object; anything thrown is logged under the route's label and answered by 500.
\<close>

definition respond :: "string \<Rightarrow> string \<Rightarrow> jsval outcome \<Rightarrow> handled" where
  "respond name label out =
     (case out of
        (Inr v, tr) \<Rightarrow> (res_json name v, tr)
      | (Inl e, tr) \<Rightarrow> (internal_error, tr @ [LogError label e]))"

subsection \<open>SDK-based variant\<close>

text \<open>\<^verbatim>\<open>verifyClientSecret\<close> (SDK variant): it logs both secrets before comparing.\<close>

definition sdk_verifyClientSecret :: "string option \<Rightarrow> body \<Rightarrow> (body \<Rightarrow> handled) \<Rightarrow> handled" where
  "sdk_verifyClientSecret storedClientSecret req_body next =
     (let clientSecret = own req_body ''client_secret'';
          entry = Log ''checking client secret'' [clientSecret, env_value storedClientSecret]
      in if strict_eq clientSecret (env_value storedClientSecret)
         then (case next req_body of (res, tr) \<Rightarrow> (res, entry # tr))
         else (forbidden, [entry]))"

fun sdk_handler :: "sdk_model \<Rightarrow> route \<Rightarrow> body \<Rightarrow> handled" where
  "sdk_handler generativeModel GenerateQuerySummary req_body =
     respond ''summary'' ''There was an error processing the individual query summary: ''
       (sdk_generateQuerySummary generativeModel (own req_body ''query'')
          (own req_body ''description'') (own req_body ''nextStepsInstructions''))"
| "sdk_handler generativeModel GenerateSummary req_body =
     respond ''summary'' ''There was an error processing the dashboard summary: ''
       (sdk_generateSummary generativeModel (own req_body ''querySummaries'')
          (own req_body ''nextStepsInstructions''))"
| "sdk_handler generativeModel GenerateQuerySuggestions req_body =
     respond ''suggestions'' ''There was an error processing the query suggestions: ''
       (sdk_generateQuerySuggestions generativeModel (own req_body ''queryResults'')
          (own req_body ''querySummaries'') (own req_body ''nextStepsInstructions''))"

text \<open>\<^verbatim>\<open>app.post(route, verifyClientSecret, handler)\<close>\<close>

definition sdk_app :: "string option \<Rightarrow> sdk_model \<Rightarrow> route \<Rightarrow> body \<Rightarrow> handled" where
  "sdk_app storedClientSecret generativeModel r req_body =
     sdk_verifyClientSecret storedClientSecret req_body (sdk_handler generativeModel r)"

subsection \<open>REST-based variant\<close>

definition rest_verifyClientSecret :: "string option \<Rightarrow> body \<Rightarrow> (body \<Rightarrow> handled) \<Rightarrow> handled" where
  "rest_verifyClientSecret storedClientSecret req_body next =
     (let clientSecret = own req_body ''client_secret''
      in if strict_eq clientSecret (env_value storedClientSecret)
         then next req_body
         else (forbidden, []))"

fun rest_handler :: "rest_env \<Rightarrow> route \<Rightarrow> body \<Rightarrow> handled" where
  "rest_handler env GenerateQuerySummary req_body =
     respond ''summary'' ''Error in /generateQuerySummary:''
       (rest_generateQuerySummary env (own req_body ''query'')
          (own req_body ''description'') (own req_body ''nextStepsInstructions''))"
| "rest_handler env GenerateSummary req_body =
     respond ''summary'' ''Error in /generateSummary:''
       (rest_generateSummary env (own req_body ''querySummaries'')
          (own req_body ''nextStepsInstructions''))"
| "rest_handler env GenerateQuerySuggestions req_body =
     respond ''suggestions'' ''Error in /generateQuerySuggestions:''
       (rest_generateQuerySuggestions env (own req_body ''queryResults'')
          (own req_body ''querySummaries'') (own req_body ''nextStepsInstructions''))"

definition rest_app :: "string option \<Rightarrow> rest_env \<Rightarrow> route \<Rightarrow> body \<Rightarrow> handled" where
  "rest_app storedClientSecret env r req_body =
     rest_verifyClientSecret storedClientSecret req_body (rest_handler env r)"

section \<open>What a route renders\<close>

text \<open>
  The prompt a route's handler renders from a request body, and the name of the field
  its answer carries: the reading of the body's fields by the handler, followed by the
  builder the handler's helper starts with.
\<close>

fun sdk_prompt :: "route \<Rightarrow> body \<Rightarrow> js_error + string" where
  "sdk_prompt GenerateQuerySummary req_body =
     sdk_queryPrompt (own req_body ''query'') (own req_body ''description'')
       (own req_body ''nextStepsInstructions'')"
| "sdk_prompt GenerateSummary req_body =
     sdk_finalPromptData (own req_body ''querySummaries'')
       (own req_body ''nextStepsInstructions'')"
| "sdk_prompt GenerateQuerySuggestions req_body =
     sdk_querySuggestionsPromptData (own req_body ''queryResults'')
       (own req_body ''querySummaries'') (own req_body ''nextStepsInstructions'')"

fun rest_prompt :: "route \<Rightarrow> body \<Rightarrow> js_error + string" where
  "rest_prompt GenerateQuerySummary req_body =
     getQuerySummaryPrompt (own req_body ''query'') (own req_body ''description'')
       (own req_body ''nextStepsInstructions'')"
| "rest_prompt GenerateSummary req_body =
     rest_finalPromptData (own req_body ''querySummaries'')
       (own req_body ''nextStepsInstructions'')"
| "rest_prompt GenerateQuerySuggestions req_body =
     rest_querySuggestionsPromptData (own req_body ''queryResults'')
       (own req_body ''querySummaries'') (own req_body ''nextStepsInstructions'')"

fun result_field :: "route \<Rightarrow> string" where
  "result_field GenerateQuerySummary = ''summary''"
| "result_field GenerateSummary = ''summary''"
| "result_field GenerateQuerySuggestions = ''suggestions''"

text \<open>The prompts sent to the model in the course of a request.\<close>

fun model_calls :: "event list \<Rightarrow> string list" where
  "model_calls [] = []"
| "model_calls (ModelCall p # es) = p # model_calls es"
| "model_calls (e # es) = model_calls es"

text \<open>The test \<^verbatim>\<open>clientSecret === storedClientSecret\<close> of both gates.\<close>

definition secret_matches :: "string option \<Rightarrow> body \<Rightarrow> bool" where
  "secret_matches storedClientSecret req_body =
     strict_eq (own req_body ''client_secret'') (env_value storedClientSecret)"

section \<open>Sample requests and environments\<close>

text \<open>An SDK client that resolves with a given result, whatever the prompt.\<close>

definition sdk_replying :: "jsval \<Rightarrow> sdk_model" where
  "sdk_replying formattedResp prompt = Inr formattedResp"

text \<open>An environment that hands out a token and answers every call with a given reply.\<close>

definition rest_replying :: "http_reply \<Rightarrow> rest_env" where
  "rest_replying reply =
     \<lparr>token_outcome = Inr ''token'', fetch = (\<lambda>accessToken prompt. Inr reply)\<rparr>"

text \<open>A reply with a status, a raw text and a decoded body.\<close>

definition reply_of :: "nat \<Rightarrow> string \<Rightarrow> jsval \<Rightarrow> http_reply" where
  "reply_of code raw data = \<lparr>reply_status = code, reply_text = Inr raw, reply_json = Inr data\<rparr>"

definition suggestions_request :: body where
  "suggestions_request =
     [(''client_secret'', JStr ''s3cret''), (''queryResults'', JStr ''rows''),
      (''querySummaries'', JStr ''summaries''), (''nextStepsInstructions'', JStr ''tips'')]"

definition summary_request :: body where
  "summary_request =
     [(''client_secret'', JStr ''s3cret''), (''querySummaries'', JArr [JStr ''A'', JStr ''B'']),
      (''nextStepsInstructions'', JStr ''tips'')]"

text \<open>The query of the specification's scenario, with a given \<^verbatim>\<open>note_text\<close>.\<close>

definition web_traffic :: "jsval \<Rightarrow> jsval" where
  "web_traffic note_text =
     JObj [(''title'', JStr ''Web Traffic''), (''note_text'', note_text),
           (''queryBody'', JObj [(''fields'', JStr ''source, amount'')]),
           (''queryData'', JArr [])]"

definition query_request :: body where
  "query_request =
     [(''client_secret'', JStr ''s3cret''), (''query'', web_traffic (JStr [])),
      (''description'', JStr ''Traffic by source''), (''nextStepsInstructions'', JStr [])]"

definition query_only_request :: body where
  "query_only_request =
     [(''client_secret'', JStr ''s3cret''), (''query'', web_traffic (JStr ''weekly''))]"

text \<open>Requests that carry the secret and nothing else, and nothing at all.\<close>

definition bare_request :: body where
  "bare_request = [(''client_secret'', JStr ''s3cret'')]"

definition empty_request :: body where
  "empty_request = []"

text \<open>Requests with one field missing.\<close>

definition suggestions_without_instructions :: body where
  "suggestions_without_instructions =
     [(''client_secret'', JStr ''s3cret''), (''queryResults'', JStr ''rows''),
      (''querySummaries'', JStr ''summaries'')]"

definition summary_without_instructions :: body where
  "summary_without_instructions =
     [(''client_secret'', JStr ''s3cret''), (''querySummaries'', JArr [JStr ''A'', JStr ''B''])]"

definition untitled_query :: "(string \<times> jsval) list" where
  "untitled_query =
     [(''note_text'', JStr ''weekly''),
      (''queryBody'', JObj [(''fields'', JStr ''source, amount'')]),
      (''queryData'', JArr [])]"

definition untitled_query_request :: body where
  "untitled_query_request =
     [(''client_secret'', JStr ''s3cret''), (''query'', JObj untitled_query),
      (''description'', JStr ''Traffic by source''), (''nextStepsInstructions'', JStr ''tips'')]"





section \<open>Auxiliary facts\<close>

lemma bind_err_simps [simp]:
  "bind_err (Inl e) f = Inl e"
  "bind_err (Inr x) f = f x"
  by (simp_all add: bind_err_def)

lemma bind_err_eq_Inr:
  "bind_err m f = Inr y \<longleftrightarrow> (\<exists>x. m = Inr x \<and> f x = Inr y)"
  by (cases m) simp_all

lemma model_calls_append [simp]: "model_calls (xs @ ys) = model_calls xs @ model_calls ys"
  by (induction xs rule: model_calls.induct) simp_all

lemma own_absent: "map_of b k = None \<Longrightarrow> own b k = JUndefined"
  by (simp add: own_def)

lemma strict_eq_string: "strict_eq v (JStr s) \<longleftrightarrow> v = JStr s"
  by (cases v) auto

lemma strict_eq_undefined: "strict_eq v JUndefined \<longleftrightarrow> v = JUndefined"
  by (cases v) auto

lemma strict_eq_null: "strict_eq v JNull \<longleftrightarrow> v = JNull"
  by (cases v) auto

lemma respond_status: "status (fst (respond n l out)) \<noteq> 403"
  by (cases out) (auto simp: respond_def res_json_def internal_error_def split: sum.splits)

lemma respond_error: "respond n l (Inl e, tr) = (internal_error, tr @ [LogError l e])"
  by (simp add: respond_def)

lemma respond_value: "respond n l (Inr v, tr) = (res_json n v, tr)"
  by (simp add: respond_def)

lemma elem_strings_strs: "elem_strings (map JStr xs) = Inr xs"
  by (induction xs) simp_all

lemma call_join_strs: "call_join (JArr (map JStr xs)) sep = Inr (join_with sep xs)"
  by (simp add: elem_strings_strs)

lemma join_with_Cons: "join_with sep (x # xs) = x @ concat (map (\<lambda>y. sep @ y) xs)"
  by (induction xs arbitrary: x) simp_all

lemma call_join_not_array: "(\<forall>xs. v \<noteq> JArr xs) \<Longrightarrow> call_join v sep = Inl TypeError"
  by (cases v) simp_all

lemma web_traffic_reads:
  "get_prop (web_traffic v) ''title'' = Inr (JStr ''Web Traffic'')"
  "get_prop (web_traffic v) ''note_text'' = Inr v"
  "get_prop (web_traffic v) ''queryBody'' = Inr (JObj [(''fields'', JStr ''source, amount'')])"
  "get_prop (web_traffic v) ''queryData'' = Inr (JArr [])"
  by (simp_all add: web_traffic_def own_def)

subsection \<open>The handlers, by what the prompt builder returns\<close>

lemma sdk_handler_no_prompt:
  assumes "sdk_prompt r b = Inl e"
  shows "fst (sdk_handler m r b) = internal_error \<and> model_calls (snd (sdk_handler m r b)) = []"
  using assms
  by (cases r)
     (simp_all add: respond_def sdk_generateQuerySummary_def sdk_generateSummary_def
        sdk_generateQuerySuggestions_def)

lemma sdk_handler_prompt:
  assumes "sdk_prompt r b = Inr p"
  shows "model_calls (snd (sdk_handler m r b)) = [p]"
    and "fst (sdk_handler m r b) =
           (case bind_err (m p) sdk_text of Inl e \<Rightarrow> internal_error
            | Inr v \<Rightarrow> res_json (result_field r) v)"
  using assms
  by (cases r; cases "bind_err (m p) sdk_text";
      simp add: respond_def sdk_generateQuerySummary_def sdk_generateSummary_def
        sdk_generateQuerySuggestions_def)+

lemma rest_handler_no_token:
  assumes "token_outcome env = Inl e"
  shows "fst (rest_handler env r b) = internal_error \<and> model_calls (snd (rest_handler env r b)) = []"
  using assms
  by (cases r)
     (simp_all add: respond_def rest_generateQuerySummary_def rest_generateSummary_def
        rest_generateQuerySuggestions_def getAccessToken_def)

lemma rest_handler_no_prompt:
  assumes "rest_prompt r b = Inl e"
  shows "fst (rest_handler env r b) = internal_error \<and> model_calls (snd (rest_handler env r b)) = []"
  using assms
  by (cases r; cases "token_outcome env")
     (simp_all add: respond_def rest_generateQuerySummary_def rest_generateSummary_def
        rest_generateQuerySuggestions_def getAccessToken_def)

lemma rest_handler_prompt:
  assumes "token_outcome env = Inr tok" and "rest_prompt r b = Inr p"
  shows "model_calls (snd (rest_handler env r b)) = [p]"
    and "fst (rest_handler env r b) =
           (case rest_call env tok p of Inl e \<Rightarrow> internal_error
            | Inr v \<Rightarrow> res_json (result_field r) v)"
    and "rest_call env tok p = Inl e \<Longrightarrow>
           \<exists>label. snd (rest_handler env r b) = [TokenRequest, ModelCall p, LogError label e]"
  using assms
  by (cases r; cases "rest_call env tok p";
      simp add: respond_def rest_generateQuerySummary_def rest_generateSummary_def
        rest_generateQuerySuggestions_def getAccessToken_def)+

subsection \<open>The gate\<close>

lemma sdk_gate_closed:
  assumes "\<not> strict_eq (own b ''client_secret'') (env_value stored)"
  shows "sdk_app stored m r b =
           (forbidden, [Log ''checking client secret'' [own b ''client_secret'', env_value stored]])"
  using assms by (simp add: sdk_app_def sdk_verifyClientSecret_def)

lemma sdk_gate_open:
  assumes "strict_eq (own b ''client_secret'') (env_value stored)"
  shows "sdk_app stored m r b =
           (fst (sdk_handler m r b),
            Log ''checking client secret'' [own b ''client_secret'', env_value stored] #
            snd (sdk_handler m r b))"
  using assms by (simp add: sdk_app_def sdk_verifyClientSecret_def split: prod.splits)

lemma rest_gate_closed:
  assumes "\<not> strict_eq (own b ''client_secret'') (env_value stored)"
  shows "rest_app stored env r b = (forbidden, [])"
  using assms by (simp add: rest_app_def rest_verifyClientSecret_def)

lemma rest_gate_open:
  assumes "strict_eq (own b ''client_secret'') (env_value stored)"
  shows "rest_app stored env r b = rest_handler env r b"
  using assms by (simp add: rest_app_def rest_verifyClientSecret_def)

lemma sdk_handler_status: "status (fst (sdk_handler m r b)) \<noteq> 403"
  by (cases r) (simp_all add: respond_status)

lemma rest_handler_status: "status (fst (rest_handler env r b)) \<noteq> 403"
  by (cases r) (simp_all add: respond_status)

subsection \<open>The query-summary texts, by what is read from the query\<close>

lemma sdk_context_renders:
  assumes "to_string (or_else nsi (JStr [])) = Inr i"
    and "to_string (or_else desc (JStr [])) = Inr d"
    and "get_prop q ''title'' = Inr title" and "to_string title = Inr t"
    and "get_prop q ''note_text'' = Inr nt" and "to_string nt = Inr n"
    and "get_prop q ''queryBody'' = Inr qb" and "get_prop qb ''fields'' = Inr fl"
    and "to_string fl = Inr f"
    and "get_prop q ''queryData'' = Inr qd"
  shows "sdk_context q desc nsi =
           Inr (sdk_context_1 @ i @ sdk_context_2 @ d @ sdk_context_3 @ t @ sdk_context_4 @
                (''Query Note: '' @ n) @ sdk_context_5 @ f @ sdk_context_6 @
                (case json_stringify qd of None \<Rightarrow> ''undefined'' | Some s \<Rightarrow> s) @
                sdk_context_7)"
proof -
  have "\<not> strict_eq nt (JStr []) \<or> \<not> strict_eq nt JNull"
    by (auto simp: strict_eq_string strict_eq_null)
  then show ?thesis
    using assms by (simp add: sdk_context_def)
qed

lemma getQuerySummaryPrompt_renders:
  assumes "to_string (or_else nsi (JStr [])) = Inr i"
    and "to_string (or_else desc (JStr [])) = Inr d"
    and "get_prop q ''title'' = Inr title" and "to_string title = Inr t"
    and "get_prop q ''note_text'' = Inr nt" and "to_string nt = Inr n"
    and "get_prop q ''queryBody'' = Inr qb" and "get_prop qb ''fields'' = Inr fl"
    and "to_string fl = Inr f"
    and "get_prop q ''queryData'' = Inr qd"
  shows "getQuerySummaryPrompt q desc nsi =
           Inr (rest_queryPrompt_1 @ i @ rest_queryPrompt_2 @ d @ rest_queryPrompt_3 @ t @
                rest_queryPrompt_4 @
                (if nt = JStr [] \<or> nt = JNull then [] else ''Query Note: '' @ n) @
                rest_queryPrompt_5 @ f @ rest_queryPrompt_6 @
                (case json_stringify qd of None \<Rightarrow> ''undefined'' | Some s \<Rightarrow> s) @
                rest_queryPrompt_7)"
  using assms
  by (auto simp: getQuerySummaryPrompt_def strict_eq_string strict_eq_null)

lemma sdk_prompt_embeds_context:
  "sdk_context q d n = Inr c \<Longrightarrow>
   sdk_queryPrompt q d n = Inr (sdk_queryPrompt_1 @ c @ sdk_queryPrompt_2)"
  by (simp add: sdk_queryPrompt_def)

lemma or_else_undefined: "or_else JUndefined v = v"
  by (simp add: or_else_def)

section \<open>Authorization gate\<close>

text \<open>
  C1, as the claim states it, fails: an authorized request need not reach the model.
  A request to /generateSummary that carries the right secret and no
  \<^verbatim>\<open>querySummaries\<close> passes the gate, the handler throws on the \<^verbatim>\<open>join\<close>, and the
  request ends with status 500 and no model call.
\<close>

theorem authorized_request_without_model_call:
  "secret_matches (Some ''s3cret'') bare_request \<and>
   sdk_app (Some ''s3cret'') (sdk_replying JNull) GenerateSummary bare_request =
     (internal_error,
      [Log ''checking client secret'' [JStr ''s3cret'', JStr ''s3cret''],
       Log [] [JUndefined],
       LogError ''There was an error processing the dashboard summary: '' TypeError]) \<and>
   model_calls (snd (sdk_app (Some ''s3cret'') (sdk_replying JNull) GenerateSummary bare_request)) = []"
  by (simp add: secret_matches_def bare_request_def own_def sdk_app_def
      sdk_verifyClientSecret_def sdk_generateSummary_def sdk_finalPromptData_def respond_def
      Let_def)

text \<open>
  C1, amended. On every route of both variants the gate answers 403 exactly when
  \<^verbatim>\<open>client_secret\<close> is not strictly equal (\<^verbatim>\<open>===\<close>) to the configured secret, which
  for a configured secret means: is not that very string. A rejected request gets the
  fixed 403 response and nothing else happens: the handler does not run, no token is
  requested, no prompt is sent. An accepted request gets what the route's handler
  answers; the handler sends the rendered prompt to the model whenever the prompt
  renders (and, in the REST variant, the access token was obtained).
\<close>

theorem gate_rejects_iff_secret_differs:
  "(status (fst (sdk_app stored m r b)) = 403 \<longleftrightarrow> \<not> secret_matches stored b) \<and>
   (status (fst (rest_app stored env r b)) = 403 \<longleftrightarrow> \<not> secret_matches stored b) \<and>
   (secret_matches (Some s) b \<longleftrightarrow> own b ''client_secret'' = JStr s) \<and>
   (\<not> secret_matches stored b \<longrightarrow>
      fst (sdk_app stored m r b) = forbidden \<and>
      model_calls (snd (sdk_app stored m r b)) = [] \<and>
      rest_app stored env r b = (forbidden, [])) \<and>
   (secret_matches stored b \<longrightarrow>
      fst (sdk_app stored m r b) = fst (sdk_handler m r b) \<and>
      rest_app stored env r b = rest_handler env r b \<and>
      (\<forall>p. sdk_prompt r b = Inr p \<longrightarrow> model_calls (snd (sdk_app stored m r b)) = [p]) \<and>
      (\<forall>p tok. token_outcome env = Inr tok \<and> rest_prompt r b = Inr p \<longrightarrow>
         model_calls (snd (rest_app stored env r b)) = [p]))"
proof (cases "secret_matches stored b")
  case True
  then have eq: "strict_eq (own b ''client_secret'') (env_value stored)"
    by (simp add: secret_matches_def)
  have "status (fst (sdk_app stored m r b)) \<noteq> 403"
    by (simp add: sdk_gate_open [OF eq] sdk_handler_status)
  moreover have "status (fst (rest_app stored env r b)) \<noteq> 403"
    by (simp add: rest_gate_open [OF eq] rest_handler_status)
  moreover have "secret_matches (Some s) b \<longleftrightarrow> own b ''client_secret'' = JStr s"
    by (simp add: secret_matches_def strict_eq_string)
  moreover have "\<forall>p. sdk_prompt r b = Inr p \<longrightarrow> model_calls (snd (sdk_app stored m r b)) = [p]"
    by (simp add: sdk_gate_open [OF eq] sdk_handler_prompt(1))
  moreover have "\<forall>p tok. token_outcome env = Inr tok \<and> rest_prompt r b = Inr p \<longrightarrow>
      model_calls (snd (rest_app stored env r b)) = [p]"
    by (simp add: rest_gate_open [OF eq] rest_handler_prompt(1))
  ultimately show ?thesis
    using True by (simp add: sdk_gate_open [OF eq] rest_gate_open [OF eq])
next
  case False
  then have ne: "\<not> strict_eq (own b ''client_secret'') (env_value stored)"
    by (simp add: secret_matches_def)
  have "secret_matches (Some s) b \<longleftrightarrow> own b ''client_secret'' = JStr s"
    by (simp add: secret_matches_def strict_eq_string)
  then show ?thesis
    using False
    by (simp add: sdk_gate_closed [OF ne] rest_gate_closed [OF ne] forbidden_def)
qed

theorem gate_rejects_iff_secret_differs_witness:
  "\<not> secret_matches (Some ''s3cret'') empty_request \<and>
   rest_app (Some ''s3cret'') (rest_replying (reply_of 200 [] JNull)) GenerateQuerySuggestions
     empty_request = (forbidden, []) \<and>
   secret_matches (Some ''s3cret'') suggestions_request \<and>
   model_calls (snd (sdk_app (Some ''s3cret'') (sdk_replying JNull) GenerateQuerySuggestions
     suggestions_request)) =
     [sdk_querySuggestionsPromptData_1 @ ''tips'' @ sdk_querySuggestionsPromptData_2 @
      ''summaries'' @ sdk_querySuggestionsPromptData_3 @ ''rows'' @
      sdk_querySuggestionsPromptData_4 @ ''summaries'' @ sdk_querySuggestionsPromptData_5 @
      ''tips'' @ sdk_querySuggestionsPromptData_6]"
proof -
  have closed: "\<not> secret_matches (Some ''s3cret'') empty_request"
    by (simp add: secret_matches_def empty_request_def own_def)
  have opened: "secret_matches (Some ''s3cret'') suggestions_request"
    by (simp add: secret_matches_def suggestions_request_def own_def)
  have prompt: "sdk_prompt GenerateQuerySuggestions suggestions_request =
      Inr (sdk_querySuggestionsPromptData_1 @ ''tips'' @ sdk_querySuggestionsPromptData_2 @
      ''summaries'' @ sdk_querySuggestionsPromptData_3 @ ''rows'' @
      sdk_querySuggestionsPromptData_4 @ ''summaries'' @ sdk_querySuggestionsPromptData_5 @
      ''tips'' @ sdk_querySuggestionsPromptData_6)"
    by (simp add: suggestions_request_def own_def sdk_querySuggestionsPromptData_def)
  from closed opened prompt
    gate_rejects_iff_secret_differs [of "Some ''s3cret''" "sdk_replying JNull"
      GenerateQuerySuggestions empty_request "rest_replying (reply_of 200 [] JNull)" "''s3cret''"]
    gate_rejects_iff_secret_differs [of "Some ''s3cret''" "sdk_replying JNull"
      GenerateQuerySuggestions suggestions_request "rest_replying (reply_of 200 [] JNull)" "''s3cret''"]
  show ?thesis by simp
qed

text \<open>
  C8. With the environment variable unset the stored secret is \<^verbatim>\<open>undefined\<close>; a
  request without a \<^verbatim>\<open>client_secret\<close> field then passes the gate
  (\<^verbatim>\<open>undefined === undefined\<close>) on every route of both variants: the response is the
  handler's, never the 403.
\<close>

theorem unset_secret_admits_request_without_secret:
  assumes "map_of b ''client_secret'' = None"
  shows "secret_matches None b \<and>
         fst (sdk_app None m r b) = fst (sdk_handler m r b) \<and>
         snd (sdk_app None m r b) =
           Log ''checking client secret'' [JUndefined, JUndefined] # snd (sdk_handler m r b) \<and>
         rest_app None env r b = rest_handler env r b \<and>
         status (fst (sdk_app None m r b)) \<noteq> 403 \<and>
         status (fst (rest_app None env r b)) \<noteq> 403"
proof -
  have u: "own b ''client_secret'' = JUndefined"
    using assms by (rule own_absent)
  then have eq: "strict_eq (own b ''client_secret'') (env_value None)"
    by simp
  show ?thesis
    using u by (simp add: secret_matches_def sdk_gate_open [OF eq] rest_gate_open [OF eq]
        sdk_handler_status rest_handler_status)
qed

theorem unset_secret_admits_request_without_secret_witness:
  "map_of empty_request ''client_secret'' = None \<and>
   rest_app None (rest_replying (reply_of 200 [] JNull)) GenerateSummary empty_request =
     (internal_error,
      [TokenRequest, LogError ''Error in /generateSummary:'' TypeError])"
proof -
  have absent: "map_of empty_request ''client_secret'' = None"
    by (simp add: empty_request_def)
  have "rest_handler (rest_replying (reply_of 200 [] JNull)) GenerateSummary empty_request =
      (internal_error, [TokenRequest, LogError ''Error in /generateSummary:'' TypeError])"
    by (simp add: empty_request_def own_def rest_generateSummary_def getAccessToken_def
        rest_replying_def rest_finalPromptData_def respond_def)
  with absent unset_secret_admits_request_without_secret [OF absent,
      of "sdk_replying JNull" GenerateSummary "rest_replying (reply_of 200 [] JNull)"]
  show ?thesis by simp
qed

section \<open>Requests whose prompt cannot be rendered\<close>

text \<open>
  C9. An authorized request to /generateSummary whose \<^verbatim>\<open>querySummaries\<close> is missing,
  or is anything but an array (nothing else has a \<^verbatim>\<open>join\<close> method), makes the
  handler throw a \<^verbatim>\<open>TypeError\<close> where the prompt would be rendered: no prompt exists,
  no model call is issued, and the endpoint answers 500. This holds in both variants.
\<close>

theorem summary_request_without_join_fails:
  assumes "secret_matches stored b"
    and "\<forall>xs. own b ''querySummaries'' \<noteq> JArr xs"
  shows "sdk_prompt GenerateSummary b = Inl TypeError \<and>
         rest_prompt GenerateSummary b = Inl TypeError \<and>
         fst (sdk_app stored m GenerateSummary b) =
           \<lparr>status = 500, sent = Text ''Internal Server Error''\<rparr> \<and>
         model_calls (snd (sdk_app stored m GenerateSummary b)) = [] \<and>
         fst (rest_app stored env GenerateSummary b) =
           \<lparr>status = 500, sent = Text ''Internal Server Error''\<rparr> \<and>
         model_calls (snd (rest_app stored env GenerateSummary b)) = []"
proof -
  have eq: "strict_eq (own b ''client_secret'') (env_value stored)"
    using assms(1) by (simp add: secret_matches_def)
  have j: "call_join (own b ''querySummaries'') ''\<newline>'' = Inl TypeError"
    using assms(2) by (rule call_join_not_array)
  have s: "sdk_prompt GenerateSummary b = Inl TypeError"
    by (simp add: sdk_finalPromptData_def j)
  have r: "rest_prompt GenerateSummary b = Inl TypeError"
    by (simp add: rest_finalPromptData_def j)
  show ?thesis
    using sdk_handler_no_prompt [OF s, of m] rest_handler_no_prompt [OF r, of env] s r
    by (simp add: sdk_gate_open [OF eq] rest_gate_open [OF eq] internal_error_def)
qed

theorem summary_request_without_join_fails_witness:
  "secret_matches (Some ''s3cret'') bare_request \<and>
   (\<forall>xs. own bare_request ''querySummaries'' \<noteq> JArr xs) \<and>
   fst (rest_app (Some ''s3cret'') (rest_replying (reply_of 200 [] JNull)) GenerateSummary
     bare_request) = \<lparr>status = 500, sent = Text ''Internal Server Error''\<rparr> \<and>
   model_calls (snd (rest_app (Some ''s3cret'') (rest_replying (reply_of 200 [] JNull))
     GenerateSummary bare_request)) = []"
proof -
  have a: "secret_matches (Some ''s3cret'') bare_request"
    by (simp add: secret_matches_def bare_request_def own_def)
  have b: "\<forall>xs. own bare_request ''querySummaries'' \<noteq> JArr xs"
    by (simp add: bare_request_def own_def)
  show ?thesis
    using a b summary_request_without_join_fails [OF a b,
        of "sdk_replying JNull" "rest_replying (reply_of 200 [] JNull)"]
    by simp
qed

section \<open>Upstream failures\<close>

lemma show_nat_503: "show_nat 503 = ''503''"
  by (simp add: show_nat.simps)

text \<open>
  C5. In the REST variant, when an authorized request reaches the model endpoint (the
  token was obtained and the prompt rendered) and the reply's status is outside 200..299,
  the endpoint answers with status 500 and the fixed body \<^verbatim>\<open>Internal Server Error\<close>,
  the same for every upstream status and text. The upstream status and text go to the
  log only, inside the message of the error that the route logs.
\<close>

theorem upstream_status_becomes_500:
  assumes "secret_matches stored b"
    and "token_outcome env = Inr tok"
    and "rest_prompt r b = Inr p"
    and "fetch env tok p = Inr reply"
    and "\<not> reply_ok reply"
  shows "fst (rest_app stored env r b) =
           \<lparr>status = 500, sent = Text ''Internal Server Error''\<rparr> \<and>
         (\<forall>errorText. reply_text reply = Inr errorText \<longrightarrow>
            (\<exists>label. snd (rest_app stored env r b) =
               [TokenRequest, ModelCall p,
                LogError label
                  (Error (''API request failed with status '' @
                          show_nat (reply_status reply) @ '': '' @ errorText))]))"
proof -
  have eq: "strict_eq (own b ''client_secret'') (env_value stored)"
    using assms(1) by (simp add: secret_matches_def)
  have call: "rest_call env tok p =
      bind_err (reply_text reply) (\<lambda>errorText.
        Inl (Error (''API request failed with status '' @
                    show_nat (reply_status reply) @ '': '' @ errorText)))"
    using assms(4,5) by (simp add: rest_call_def)
  have failed: "\<exists>e. rest_call env tok p = Inl e"
    unfolding call by (cases "reply_text reply") simp_all
  then have "fst (rest_handler env r b) = internal_error"
    using rest_handler_prompt(2) [OF assms(2,3)] by auto
  moreover have "\<exists>label. snd (rest_handler env r b) =
      [TokenRequest, ModelCall p,
       LogError label (Error (''API request failed with status '' @
                              show_nat (reply_status reply) @ '': '' @ errorText))]"
    if "reply_text reply = Inr errorText" for errorText
    using rest_handler_prompt(3) [OF assms(2,3)] call that by simp
  ultimately show ?thesis
    by (simp add: rest_gate_open [OF eq] internal_error_def)
qed

theorem upstream_status_becomes_500_witness:
  "secret_matches (Some ''s3cret'') suggestions_request \<and>
   \<not> reply_ok (reply_of 503 ''quota exceeded'' JNull) \<and>
   rest_app (Some ''s3cret'') (rest_replying (reply_of 503 ''quota exceeded'' JNull))
     GenerateQuerySuggestions suggestions_request =
     (\<lparr>status = 500, sent = Text ''Internal Server Error''\<rparr>,
      [TokenRequest,
       ModelCall (rest_querySuggestionsPromptData_1 @ ''tips'' @
         rest_querySuggestionsPromptData_2 @ ''summaries'' @
         rest_querySuggestionsPromptData_3 @ ''rows'' @
         rest_querySuggestionsPromptData_4 @ ''summaries'' @
         rest_querySuggestionsPromptData_5 @ ''tips'' @ rest_querySuggestionsPromptData_6),
       LogError ''Error in /generateQuerySuggestions:''
         (Error ''API request failed with status 503: quota exceeded'')])"
proof -
  let ?env = "rest_replying (reply_of 503 ''quota exceeded'' JNull)"
  let ?p = "rest_querySuggestionsPromptData_1 @ ''tips'' @
         rest_querySuggestionsPromptData_2 @ ''summaries'' @
         rest_querySuggestionsPromptData_3 @ ''rows'' @
         rest_querySuggestionsPromptData_4 @ ''summaries'' @
         rest_querySuggestionsPromptData_5 @ ''tips'' @ rest_querySuggestionsPromptData_6"
  have a: "secret_matches (Some ''s3cret'') suggestions_request"
    by (simp add: secret_matches_def suggestions_request_def own_def)
  have t: "token_outcome ?env = Inr ''token''"
    by (simp add: rest_replying_def)
  have p: "rest_prompt GenerateQuerySuggestions suggestions_request = Inr ?p"
    by (simp add: suggestions_request_def own_def rest_querySuggestionsPromptData_def)
  have f: "fetch ?env ''token'' ?p = Inr (reply_of 503 ''quota exceeded'' JNull)"
    by (simp add: rest_replying_def)
  have n: "\<not> reply_ok (reply_of 503 ''quota exceeded'' JNull)"
    by (simp add: reply_ok_def reply_of_def)
  have "reply_text (reply_of 503 ''quota exceeded'' JNull) = Inr ''quota exceeded''"
    and "reply_status (reply_of 503 ''quota exceeded'' JNull) = 503"
    by (simp_all add: reply_of_def)
  with upstream_status_becomes_500 [OF a t p f n] a n show ?thesis
    by (cases "rest_app (Some ''s3cret'') ?env GenerateQuerySuggestions suggestions_request")
       (auto simp: show_nat_503 suggestions_request_def own_def rest_app_def
          rest_verifyClientSecret_def respond_def rest_generateQuerySuggestions_def
          getAccessToken_def rest_replying_def rest_querySuggestionsPromptData_def
          rest_call_def reply_ok_def reply_of_def internal_error_def)
qed

text \<open>
  The SDK variant sees no transport status: the client's promise rejects. A rejection is
  answered by the same fixed 500, and the error goes to the log.
\<close>

lemma sdk_rejection_becomes_500:
  assumes "secret_matches stored b" and "sdk_prompt r b = Inr p" and "m p = Inl e"
  shows "fst (sdk_app stored m r b) = \<lparr>status = 500, sent = Text ''Internal Server Error''\<rparr>"
    and "\<exists>label. LogError label e \<in> set (snd (sdk_app stored m r b))"
proof -
  have eq: "strict_eq (own b ''client_secret'') (env_value stored)"
    using assms(1) by (simp add: secret_matches_def)
  show "fst (sdk_app stored m r b) = \<lparr>status = 500, sent = Text ''Internal Server Error''\<rparr>"
    using sdk_handler_prompt(2) [OF assms(2), of m] assms(3)
    by (simp add: sdk_gate_open [OF eq] internal_error_def)
  show "\<exists>label. LogError label e \<in> set (snd (sdk_app stored m r b))"
    using assms(2,3)
    by (cases r)
       (auto simp: sdk_gate_open [OF eq] respond_def sdk_generateQuerySummary_def
          sdk_generateSummary_def sdk_generateQuerySuggestions_def)
qed

section \<open>Replies without candidates\<close>

text \<open>
  C3, as the claim states it, fails in the SDK variant: the text is read by
  \<^verbatim>\<open>formattedResp.response.candidates[0].content.parts[0].text\<close> with no guard, so an
  empty \<^verbatim>\<open>candidates\<close> makes the handler throw and the endpoint answers 500.
\<close>

theorem sdk_no_candidates_answers_500:
  "secret_matches (Some ''s3cret'') suggestions_request \<and>
   fst (sdk_app (Some ''s3cret'')
          (sdk_replying (JObj [(''response'', JObj [(''candidates'', JArr [])])]))
          GenerateQuerySuggestions suggestions_request) =
     \<lparr>status = 500, sent = Text ''Internal Server Error''\<rparr>"
  by (simp add: secret_matches_def suggestions_request_def own_def sdk_app_def
      sdk_verifyClientSecret_def sdk_generateQuerySuggestions_def
      sdk_querySuggestionsPromptData_def sdk_replying_def sdk_text_def respond_def
      internal_error_def Let_def)

text \<open>
  C3, amended. In the REST variant, when an authorized request reaches the model
  endpoint and the 2xx reply decodes to a body without a truthy \<^verbatim>\<open>error\<close> whose
  \<^verbatim>\<open>candidates\<close> is an empty array, the endpoint answers 200 with the result field
  equal to the empty string. In the SDK variant a result whose \<^verbatim>\<open>response\<close> has an
  empty \<^verbatim>\<open>candidates\<close> array makes the endpoint answer 500.
\<close>

theorem no_candidates_by_variant:
  assumes "secret_matches stored b"
  shows "(\<forall>tok p reply data error.
            token_outcome env = Inr tok \<and> rest_prompt r b = Inr p \<and>
            fetch env tok p = Inr reply \<and> reply_ok reply \<and> reply_json reply = Inr data \<and>
            get_prop data ''error'' = Inr error \<and> \<not> truthy error \<and>
            get_prop data ''candidates'' = Inr (JArr []) \<longrightarrow>
            fst (rest_app stored env r b) =
              \<lparr>status = 200, sent = Json [(result_field r, JStr '''')]\<rparr>) \<and>
         (\<forall>p formattedResp response.
            sdk_prompt r b = Inr p \<and> m p = Inr formattedResp \<and>
            get_prop formattedResp ''response'' = Inr response \<and>
            get_prop response ''candidates'' = Inr (JArr []) \<longrightarrow>
            fst (sdk_app stored m r b) =
              \<lparr>status = 500, sent = Text ''Internal Server Error''\<rparr>)"
proof -
  have eq: "strict_eq (own b ''client_secret'') (env_value stored)"
    using assms by (simp add: secret_matches_def)
  have rest: "fst (rest_app stored env r b) =
      \<lparr>status = 200, sent = Json [(result_field r, JStr '''')]\<rparr>"
    if "token_outcome env = Inr tok" "rest_prompt r b = Inr p"
      "fetch env tok p = Inr reply" "reply_ok reply" "reply_json reply = Inr data"
      "get_prop data ''error'' = Inr error" "\<not> truthy error"
      "get_prop data ''candidates'' = Inr (JArr [])"
    for tok p reply data error
  proof -
    have "rest_text data = Inr (JStr '''')"
      using that(8) by (simp add: rest_text_def nullish_def or_else_def)
    then have "rest_call env tok p = Inr (JStr '''')"
      using that(3-7) by (simp add: rest_call_def)
    then show ?thesis
      using rest_handler_prompt(2) [OF that(1,2)]
      by (simp add: rest_gate_open [OF eq] res_json_def)
  qed
  have sdk: "fst (sdk_app stored m r b) =
      \<lparr>status = 500, sent = Text ''Internal Server Error''\<rparr>"
    if "sdk_prompt r b = Inr p" "m p = Inr formattedResp"
      "get_prop formattedResp ''response'' = Inr response"
      "get_prop response ''candidates'' = Inr (JArr [])"
    for p formattedResp response
  proof -
    have "bind_err (m p) sdk_text = Inl TypeError"
      using that(2-4) by (simp add: sdk_text_def)
    then show ?thesis
      using sdk_handler_prompt(2) [OF that(1), of m]
      by (simp add: sdk_gate_open [OF eq] internal_error_def)
  qed
  show ?thesis
    using rest sdk by blast
qed

theorem no_candidates_by_variant_witness:
  "secret_matches (Some ''s3cret'') summary_request \<and>
   fst (rest_app (Some ''s3cret'')
          (rest_replying (reply_of 200 [] (JObj [(''candidates'', JArr [])])))
          GenerateSummary summary_request) =
     \<lparr>status = 200, sent = Json [(''summary'', JStr '''')]\<rparr> \<and>
   fst (sdk_app (Some ''s3cret'')
          (sdk_replying (JObj [(''response'', JObj [(''candidates'', JArr [])])]))
          GenerateSummary summary_request) =
     \<lparr>status = 500, sent = Text ''Internal Server Error''\<rparr>"
proof -
  let ?data = "JObj [(''candidates'', JArr [])]"
  let ?env = "rest_replying (reply_of 200 [] ?data)"
  let ?m = "sdk_replying (JObj [(''response'', ?data)])"
  let ?d = "join_with ''\<newline>'' [''A'', ''B'']"
  let ?q = "rest_finalPromptData_1 @ ?d @ rest_finalPromptData_2 @ ''tips'' @ rest_finalPromptData_3"
  let ?p = "sdk_finalPromptData_1 @ ?d @ sdk_finalPromptData_2 @ ''tips'' @ sdk_finalPromptData_3"
  have a: "secret_matches (Some ''s3cret'') summary_request"
    by (simp add: secret_matches_def summary_request_def own_def)
  have q: "rest_prompt GenerateSummary summary_request = Inr ?q"
    by (simp add: summary_request_def own_def rest_finalPromptData_def)
  have p: "sdk_prompt GenerateSummary summary_request = Inr ?p"
    by (simp add: summary_request_def own_def sdk_finalPromptData_def)
  have rest: "token_outcome ?env = Inr ''token'' \<and> rest_prompt GenerateSummary summary_request = Inr ?q \<and>
      fetch ?env ''token'' ?q = Inr (reply_of 200 [] ?data) \<and> reply_ok (reply_of 200 [] ?data) \<and>
      reply_json (reply_of 200 [] ?data) = Inr ?data \<and>
      get_prop ?data ''error'' = Inr JUndefined \<and> \<not> truthy JUndefined \<and>
      get_prop ?data ''candidates'' = Inr (JArr [])"
    using q by (simp add: rest_replying_def reply_of_def reply_ok_def own_def)
  have sdk: "sdk_prompt GenerateSummary summary_request = Inr ?p \<and>
      ?m ?p = Inr (JObj [(''response'', ?data)]) \<and>
      get_prop (JObj [(''response'', ?data)]) ''response'' = Inr ?data \<and>
      get_prop ?data ''candidates'' = Inr (JArr [])"
    using p by (simp add: sdk_replying_def own_def)
  from no_candidates_by_variant [OF a, of ?env GenerateSummary ?m] rest sdk a
  show ?thesis
    by (metis result_field.simps(2))
qed

section \<open>Prompt contents\<close>

text \<open>
  C4. For every sequence of summary strings (and whatever the next-step instructions
  render as), the dashboard-summary prompt of both variants contains the summaries joined
  by single line feeds, in the order given: it is the text spliced in after
  \<^verbatim>\<open>data: \<close>. For \<^verbatim>\<open>["A", "B"]\<close> the joined text is \<^verbatim>\<open>A\nB\<close>.
\<close>

theorem dashboard_prompt_contains_joined_summaries:
  assumes "to_string nextStepsInstructions = Inr instr"
  shows "sdk_finalPromptData (JArr (map JStr summaries)) nextStepsInstructions =
           Inr (sdk_finalPromptData_1 @ join_with ''\<newline>'' summaries @
                sdk_finalPromptData_2 @ instr @ sdk_finalPromptData_3) \<and>
         rest_finalPromptData (JArr (map JStr summaries)) nextStepsInstructions =
           Inr (rest_finalPromptData_1 @ join_with ''\<newline>'' summaries @
                rest_finalPromptData_2 @ instr @ rest_finalPromptData_3) \<and>
         sublist (join_with ''\<newline>'' summaries)
           (sdk_finalPromptData_1 @ join_with ''\<newline>'' summaries @
            sdk_finalPromptData_2 @ instr @ sdk_finalPromptData_3) \<and>
         sublist (join_with ''\<newline>'' summaries)
           (rest_finalPromptData_1 @ join_with ''\<newline>'' summaries @
            rest_finalPromptData_2 @ instr @ rest_finalPromptData_3) \<and>
         join_with ''\<newline>'' (s # summaries) = s @ concat (map (\<lambda>t. ''\<newline>'' @ t) summaries) \<and>
         join_with ''\<newline>'' [''A'', ''B''] = ''A\<newline>B''"
  using assms
  by (simp add: sdk_finalPromptData_def rest_finalPromptData_def call_join_strs
      join_with_Cons del: call_join.simps)

theorem dashboard_prompt_contains_joined_summaries_witness:
  "to_string (JStr ''tips'') = Inr ''tips'' \<and>
   rest_finalPromptData (JArr [JStr ''A'', JStr ''B'']) (JStr ''tips'') =
     Inr (rest_finalPromptData_1 @ ''A\<newline>B'' @ rest_finalPromptData_2 @ ''tips'' @
          rest_finalPromptData_3) \<and>
   sublist ''A\<newline>B''
     (sdk_finalPromptData_1 @ ''A\<newline>B'' @ sdk_finalPromptData_2 @ ''tips'' @
      sdk_finalPromptData_3)"
proof -
  have t: "to_string (JStr ''tips'') = Inr ''tips''"
    by simp
  from dashboard_prompt_contains_joined_summaries [OF t, of "[''A'', ''B'']"] t
  show ?thesis by simp
qed




text \<open>
  C2 is right about what the code sets out to do, and the SDK variant misses it: its test
  \<^verbatim>\<open>query.note_text !== '' || query.note_text !== null\<close> holds for every value, so
  for the query of the specification's scenario, whose \<^verbatim>\<open>note_text\<close> is the empty
  string, the SDK prompt carries \<^verbatim>\<open>Query Note: \<close> with nothing after it. The REST
  variant, which tests with \<^verbatim>\<open>&&\<close>, leaves the note out of the prompt for the same
  request.
\<close>

theorem sdk_prompt_keeps_empty_note:
  "get_prop (web_traffic (JStr [])) ''note_text'' = Inr (JStr []) \<and>
   sdk_prompt GenerateQuerySummary query_request =
     Inr (sdk_queryPrompt_1 @
          (sdk_context_1 @ sdk_context_2 @ ''Traffic by source'' @ sdk_context_3 @
           ''Web Traffic'' @ sdk_context_4 @ ''Query Note: '' @ sdk_context_5 @
           ''source, amount'' @ sdk_context_6 @ ''[]'' @ sdk_context_7) @
          sdk_queryPrompt_2) \<and>
   sublist ''Query Note: ''
     (sdk_queryPrompt_1 @
      (sdk_context_1 @ sdk_context_2 @ ''Traffic by source'' @ sdk_context_3 @
       ''Web Traffic'' @ sdk_context_4 @ ''Query Note: '' @ sdk_context_5 @
       ''source, amount'' @ sdk_context_6 @ ''[]'' @ sdk_context_7) @
      sdk_queryPrompt_2) \<and>
   rest_prompt GenerateQuerySummary query_request =
     Inr (rest_queryPrompt_1 @ rest_queryPrompt_2 @ ''Traffic by source'' @
          rest_queryPrompt_3 @ ''Web Traffic'' @ rest_queryPrompt_4 @ rest_queryPrompt_5 @
          ''source, amount'' @ rest_queryPrompt_6 @ ''[]'' @ rest_queryPrompt_7) \<and>
   \<not> sublist ''Query Note: ''
     (rest_queryPrompt_1 @ rest_queryPrompt_2 @ ''Traffic by source'' @
      rest_queryPrompt_3 @ ''Web Traffic'' @ rest_queryPrompt_4 @ rest_queryPrompt_5 @
      ''source, amount'' @ rest_queryPrompt_6 @ ''[]'' @ rest_queryPrompt_7)"
proof -
  have "sublist ''Query Note: ''
     ((sdk_queryPrompt_1 @ sdk_context_1 @ sdk_context_2 @ ''Traffic by source'' @
       sdk_context_3 @ ''Web Traffic'' @ sdk_context_4) @ ''Query Note: '' @
      (sdk_context_5 @ ''source, amount'' @ sdk_context_6 @ ''[]'' @ sdk_context_7 @
       sdk_queryPrompt_2))"
    by (rule sublist_appendI)
  then have kept: "sublist ''Query Note: ''
     (sdk_queryPrompt_1 @
      (sdk_context_1 @ sdk_context_2 @ ''Traffic by source'' @ sdk_context_3 @
       ''Web Traffic'' @ sdk_context_4 @ ''Query Note: '' @ sdk_context_5 @
       ''source, amount'' @ sdk_context_6 @ ''[]'' @ sdk_context_7) @
      sdk_queryPrompt_2)"
    by (simp only: append_assoc)
  have left_out: "\<not> sublist ''Query Note: ''
     (rest_queryPrompt_1 @ rest_queryPrompt_2 @ ''Traffic by source'' @
      rest_queryPrompt_3 @ ''Web Traffic'' @ rest_queryPrompt_4 @ rest_queryPrompt_5 @
      ''source, amount'' @ rest_queryPrompt_6 @ ''[]'' @ rest_queryPrompt_7)"
    by (simp add: rest_queryPrompt_1_def rest_queryPrompt_2_def rest_queryPrompt_3_def
        rest_queryPrompt_4_def rest_queryPrompt_5_def rest_queryPrompt_6_def
        rest_queryPrompt_7_def sublist_Cons_right)
  have "sdk_prompt GenerateQuerySummary query_request =
     Inr (sdk_queryPrompt_1 @
          (sdk_context_1 @ sdk_context_2 @ ''Traffic by source'' @ sdk_context_3 @
           ''Web Traffic'' @ sdk_context_4 @ ''Query Note: '' @ sdk_context_5 @
           ''source, amount'' @ sdk_context_6 @ ''[]'' @ sdk_context_7) @
          sdk_queryPrompt_2)"
    by (simp add: query_request_def own_def web_traffic_def sdk_queryPrompt_def
        sdk_context_def or_else_def)
  moreover have "rest_prompt GenerateQuerySummary query_request =
     Inr (rest_queryPrompt_1 @ rest_queryPrompt_2 @ ''Traffic by source'' @
          rest_queryPrompt_3 @ ''Web Traffic'' @ rest_queryPrompt_4 @ rest_queryPrompt_5 @
          ''source, amount'' @ rest_queryPrompt_6 @ ''[]'' @ rest_queryPrompt_7)"
    by (simp add: query_request_def own_def web_traffic_def getQuerySummaryPrompt_def
        or_else_def)
  ultimately show ?thesis
    using kept left_out by (simp only: web_traffic_reads simp_thms)
qed

text \<open>
  What does hold of the note: the SDK prompt carries \<^verbatim>\<open>Query Note: \<close> and the
  rendered note whatever the note is; the REST prompt does when the note is neither the
  empty string nor \<^verbatim>\<open>null\<close>, and has nothing in the note's place otherwise.
\<close>

lemma sdk_prompt_always_has_note:
  assumes "sdk_queryPrompt q d i = Inr p"
  shows "\<exists>nt ns. get_prop q ''note_text'' = Inr nt \<and> to_string nt = Inr ns \<and>
           sublist (''Query Note: '' @ ns) p"
proof -
  from assms obtain a b title t nt ns qb fl f qd where reads:
    "get_prop q ''note_text'' = Inr nt" "to_string nt = Inr ns"
    and p: "p = sdk_queryPrompt_1 @
               (sdk_context_1 @ a @ sdk_context_2 @ b @ sdk_context_3 @ t @ sdk_context_4 @
                (''Query Note: '' @ ns) @ sdk_context_5 @ f @ sdk_context_6 @ qd @
                sdk_context_7) @
               sdk_queryPrompt_2"
    unfolding sdk_queryPrompt_def sdk_context_def
    by (auto simp: bind_err_eq_Inr strict_eq_string strict_eq_null split: if_splits)
  have "p = (sdk_queryPrompt_1 @ sdk_context_1 @ a @ sdk_context_2 @ b @ sdk_context_3 @ t @
             sdk_context_4) @ (''Query Note: '' @ ns) @
            (sdk_context_5 @ f @ sdk_context_6 @ qd @ sdk_context_7 @ sdk_queryPrompt_2)"
    unfolding p by (simp only: append_assoc)
  then have "sublist (''Query Note: '' @ ns) p"
    by (simp only: sublist_appendI)
  with reads show ?thesis
    by blast
qed

lemma rest_prompt_has_note_when_present:
  assumes "getQuerySummaryPrompt q d i = Inr p"
    and "get_prop q ''note_text'' = Inr nt" and "nt \<noteq> JStr []" and "nt \<noteq> JNull"
  shows "\<exists>ns. to_string nt = Inr ns \<and> sublist (''Query Note: '' @ ns) p"
proof -
  from assms obtain a b t ns f qd where reads: "to_string nt = Inr ns"
    and p: "p = rest_queryPrompt_1 @ a @ rest_queryPrompt_2 @ b @ rest_queryPrompt_3 @ t @
               rest_queryPrompt_4 @ (''Query Note: '' @ ns) @ rest_queryPrompt_5 @ f @
               rest_queryPrompt_6 @ qd @ rest_queryPrompt_7"
    unfolding getQuerySummaryPrompt_def
    by (auto simp: bind_err_eq_Inr strict_eq_string strict_eq_null)
  have "p = (rest_queryPrompt_1 @ a @ rest_queryPrompt_2 @ b @ rest_queryPrompt_3 @ t @
             rest_queryPrompt_4) @ (''Query Note: '' @ ns) @
            (rest_queryPrompt_5 @ f @ rest_queryPrompt_6 @ qd @ rest_queryPrompt_7)"
    unfolding p by (simp only: append_assoc)
  then have "sublist (''Query Note: '' @ ns) p"
    by (simp only: sublist_appendI)
  with reads show ?thesis
    by blast
qed

lemma rest_note_left_out_when_empty:
  assumes "getQuerySummaryPrompt q d i = Inr p"
    and "get_prop q ''note_text'' = Inr nt" and "nt = JStr [] \<or> nt = JNull"
  shows "\<exists>a b t f qd.
           p = rest_queryPrompt_1 @ a @ rest_queryPrompt_2 @ b @ rest_queryPrompt_3 @ t @
               rest_queryPrompt_4 @ rest_queryPrompt_5 @ f @ rest_queryPrompt_6 @ qd @
               rest_queryPrompt_7"
proof -
  from assms obtain a b t f qd where
    "p = rest_queryPrompt_1 @ a @ rest_queryPrompt_2 @ b @ rest_queryPrompt_3 @ t @
         rest_queryPrompt_4 @ [] @ rest_queryPrompt_5 @ f @ rest_queryPrompt_6 @ qd @
         rest_queryPrompt_7"
    unfolding getQuerySummaryPrompt_def
    by (auto simp: bind_err_eq_Inr)
  then show ?thesis
    by (simp only: append_Nil) blast
qed

section \<open>Missing fields\<close>

text \<open>
  C6, as the claim states it, fails: a missing field is not always spliced in as
  \<^verbatim>\<open>undefined\<close>. A request to /generateSummary without \<^verbatim>\<open>querySummaries\<close> renders
  no prompt at all and is answered by 500.
\<close>

theorem missing_summaries_render_no_prompt:
  "map_of bare_request ''querySummaries'' = None \<and>
   sdk_prompt GenerateSummary bare_request = Inl TypeError \<and>
   rest_prompt GenerateSummary bare_request = Inl TypeError \<and>
   status (fst (rest_app (Some ''s3cret'') (rest_replying (reply_of 200 [] JNull))
     GenerateSummary bare_request)) = 500"
  by (simp add: bare_request_def own_def sdk_finalPromptData_def rest_finalPromptData_def
      rest_app_def rest_verifyClientSecret_def rest_generateSummary_def getAccessToken_def
      rest_replying_def respond_def internal_error_def)

text \<open>
  C6, amended. No route validates the body: a field that is missing is read as
  \<^verbatim>\<open>undefined\<close>. Where a template splices the field itself, a missing field does not
  stop the rendering and the word \<^verbatim>\<open>undefined\<close> stands in its place, whatever the
  other fields are, as long as they can be rendered: each of
  \<^verbatim>\<open>nextStepsInstructions\<close>, \<^verbatim>\<open>querySummaries\<close> and \<^verbatim>\<open>queryResults\<close> in the REST
  suggestions prompt; \<^verbatim>\<open>nextStepsInstructions\<close> in the dashboard-summary prompt of
  both variants; each of \<^verbatim>\<open>title\<close>, \<^verbatim>\<open>note_text\<close>, \<^verbatim>\<open>queryBody.fields\<close> and
  \<^verbatim>\<open>queryData\<close> of a query object in the REST query-summary prompt and in the text of
  the SDK \<^verbatim>\<open>context\<close> statement.
\<close>

theorem missing_fields_render_undefined:
  "(map_of b ''nextStepsInstructions'' = None \<and>
    to_string (own b ''querySummaries'') = Inr s \<and> to_string (own b ''queryResults'') = Inr r \<longrightarrow>
      rest_prompt GenerateQuerySuggestions b =
        Inr (rest_querySuggestionsPromptData_1 @ ''undefined'' @
             rest_querySuggestionsPromptData_2 @ s @
             rest_querySuggestionsPromptData_3 @ r @
             rest_querySuggestionsPromptData_4 @ s @
             rest_querySuggestionsPromptData_5 @ ''undefined'' @
             rest_querySuggestionsPromptData_6)) \<and>
   (map_of b ''querySummaries'' = None \<and>
    to_string (own b ''nextStepsInstructions'') = Inr i \<and>
    to_string (own b ''queryResults'') = Inr r \<longrightarrow>
      rest_prompt GenerateQuerySuggestions b =
        Inr (rest_querySuggestionsPromptData_1 @ i @
             rest_querySuggestionsPromptData_2 @ ''undefined'' @
             rest_querySuggestionsPromptData_3 @ r @
             rest_querySuggestionsPromptData_4 @ ''undefined'' @
             rest_querySuggestionsPromptData_5 @ i @
             rest_querySuggestionsPromptData_6)) \<and>
   (map_of b ''queryResults'' = None \<and>
    to_string (own b ''nextStepsInstructions'') = Inr i \<and>
    to_string (own b ''querySummaries'') = Inr s \<longrightarrow>
      rest_prompt GenerateQuerySuggestions b =
        Inr (rest_querySuggestionsPromptData_1 @ i @
             rest_querySuggestionsPromptData_2 @ s @
             rest_querySuggestionsPromptData_3 @ ''undefined'' @
             rest_querySuggestionsPromptData_4 @ s @
             rest_querySuggestionsPromptData_5 @ i @
             rest_querySuggestionsPromptData_6)) \<and>
   (map_of b ''nextStepsInstructions'' = None \<and>
    call_join (own b ''querySummaries'') ''\<newline>'' = Inr joined \<longrightarrow>
      sdk_prompt GenerateSummary b =
        Inr (sdk_finalPromptData_1 @ joined @ sdk_finalPromptData_2 @ ''undefined'' @
             sdk_finalPromptData_3) \<and>
      rest_prompt GenerateSummary b =
        Inr (rest_finalPromptData_1 @ joined @ rest_finalPromptData_2 @ ''undefined'' @
             rest_finalPromptData_3)) \<and>
   (own b ''query'' = JObj query \<and>
    to_string (or_else (own b ''nextStepsInstructions'') (JStr [])) = Inr i \<and>
    to_string (or_else (own b ''description'') (JStr [])) = Inr d \<and>
    map_of query ''title'' = None \<and>
    to_string (own query ''note_text'') = Inr n \<and>
    get_prop (own query ''queryBody'') ''fields'' = Inr fl \<and> to_string fl = Inr f \<longrightarrow>
      sdk_context (own b ''query'') (own b ''description'') (own b ''nextStepsInstructions'') =
        Inr (sdk_context_1 @ i @ sdk_context_2 @ d @ sdk_context_3 @ ''undefined'' @
             sdk_context_4 @ (''Query Note: '' @ n) @ sdk_context_5 @ f @ sdk_context_6 @
             (case json_stringify (own query ''queryData'') of
                None \<Rightarrow> ''undefined'' | Some js \<Rightarrow> js) @
             sdk_context_7) \<and>
      rest_prompt GenerateQuerySummary b =
        Inr (rest_queryPrompt_1 @ i @ rest_queryPrompt_2 @ d @ rest_queryPrompt_3 @
             ''undefined'' @ rest_queryPrompt_4 @
             (if own query ''note_text'' = JStr [] \<or> own query ''note_text'' = JNull
              then [] else ''Query Note: '' @ n) @
             rest_queryPrompt_5 @ f @ rest_queryPrompt_6 @
             (case json_stringify (own query ''queryData'') of
                None \<Rightarrow> ''undefined'' | Some js \<Rightarrow> js) @
             rest_queryPrompt_7)) \<and>
   (own b ''query'' = JObj query \<and>
    to_string (or_else (own b ''nextStepsInstructions'') (JStr [])) = Inr i \<and>
    to_string (or_else (own b ''description'') (JStr [])) = Inr d \<and>
    to_string (own query ''title'') = Inr t \<and>
    map_of query ''note_text'' = None \<and>
    get_prop (own query ''queryBody'') ''fields'' = Inr fl \<and> to_string fl = Inr f \<longrightarrow>
      sdk_context (own b ''query'') (own b ''description'') (own b ''nextStepsInstructions'') =
        Inr (sdk_context_1 @ i @ sdk_context_2 @ d @ sdk_context_3 @ t @
             sdk_context_4 @ ''Query Note: undefined'' @ sdk_context_5 @ f @ sdk_context_6 @
             (case json_stringify (own query ''queryData'') of
                None \<Rightarrow> ''undefined'' | Some js \<Rightarrow> js) @
             sdk_context_7) \<and>
      rest_prompt GenerateQuerySummary b =
        Inr (rest_queryPrompt_1 @ i @ rest_queryPrompt_2 @ d @ rest_queryPrompt_3 @ t @
             rest_queryPrompt_4 @ ''Query Note: undefined'' @
             rest_queryPrompt_5 @ f @ rest_queryPrompt_6 @
             (case json_stringify (own query ''queryData'') of
                None \<Rightarrow> ''undefined'' | Some js \<Rightarrow> js) @
             rest_queryPrompt_7)) \<and>
   (own b ''query'' = JObj query \<and>
    to_string (or_else (own b ''nextStepsInstructions'') (JStr [])) = Inr i \<and>
    to_string (or_else (own b ''description'') (JStr [])) = Inr d \<and>
    to_string (own query ''title'') = Inr t \<and>
    to_string (own query ''note_text'') = Inr n \<and>
    own query ''queryBody'' = JObj queryBody \<and> map_of queryBody ''fields'' = None \<longrightarrow>
      sdk_context (own b ''query'') (own b ''description'') (own b ''nextStepsInstructions'') =
        Inr (sdk_context_1 @ i @ sdk_context_2 @ d @ sdk_context_3 @ t @
             sdk_context_4 @ (''Query Note: '' @ n) @ sdk_context_5 @ ''undefined'' @
             sdk_context_6 @
             (case json_stringify (own query ''queryData'') of
                None \<Rightarrow> ''undefined'' | Some js \<Rightarrow> js) @
             sdk_context_7) \<and>
      rest_prompt GenerateQuerySummary b =
        Inr (rest_queryPrompt_1 @ i @ rest_queryPrompt_2 @ d @ rest_queryPrompt_3 @ t @
             rest_queryPrompt_4 @
             (if own query ''note_text'' = JStr [] \<or> own query ''note_text'' = JNull
              then [] else ''Query Note: '' @ n) @
             rest_queryPrompt_5 @ ''undefined'' @ rest_queryPrompt_6 @
             (case json_stringify (own query ''queryData'') of
                None \<Rightarrow> ''undefined'' | Some js \<Rightarrow> js) @
             rest_queryPrompt_7)) \<and>
   (own b ''query'' = JObj query \<and>
    to_string (or_else (own b ''nextStepsInstructions'') (JStr [])) = Inr i \<and>
    to_string (or_else (own b ''description'') (JStr [])) = Inr d \<and>
    to_string (own query ''title'') = Inr t \<and>
    to_string (own query ''note_text'') = Inr n \<and>
    get_prop (own query ''queryBody'') ''fields'' = Inr fl \<and> to_string fl = Inr f \<and>
    map_of query ''queryData'' = None \<longrightarrow>
      sdk_context (own b ''query'') (own b ''description'') (own b ''nextStepsInstructions'') =
        Inr (sdk_context_1 @ i @ sdk_context_2 @ d @ sdk_context_3 @ t @
             sdk_context_4 @ (''Query Note: '' @ n) @ sdk_context_5 @ f @ sdk_context_6 @
             ''undefined'' @ sdk_context_7) \<and>
      rest_prompt GenerateQuerySummary b =
        Inr (rest_queryPrompt_1 @ i @ rest_queryPrompt_2 @ d @ rest_queryPrompt_3 @ t @
             rest_queryPrompt_4 @
             (if own query ''note_text'' = JStr [] \<or> own query ''note_text'' = JNull
              then [] else ''Query Note: '' @ n) @
             rest_queryPrompt_5 @ f @ rest_queryPrompt_6 @ ''undefined'' @
             rest_queryPrompt_7))"
proof -
  have undefined_text: "to_string JUndefined = Inr ''undefined''"
    by simp
  have rendered: "sdk_context (JObj query) desc nsi =
        Inr (sdk_context_1 @ i @ sdk_context_2 @ d @ sdk_context_3 @ t @
             sdk_context_4 @ (''Query Note: '' @ n) @ sdk_context_5 @ f @ sdk_context_6 @
             (case json_stringify (own query ''queryData'') of
                None \<Rightarrow> ''undefined'' | Some js \<Rightarrow> js) @
             sdk_context_7) \<and>
      getQuerySummaryPrompt (JObj query) desc nsi =
        Inr (rest_queryPrompt_1 @ i @ rest_queryPrompt_2 @ d @ rest_queryPrompt_3 @ t @
             rest_queryPrompt_4 @
             (if own query ''note_text'' = JStr [] \<or> own query ''note_text'' = JNull
              then [] else ''Query Note: '' @ n) @
             rest_queryPrompt_5 @ f @ rest_queryPrompt_6 @
             (case json_stringify (own query ''queryData'') of
                None \<Rightarrow> ''undefined'' | Some js \<Rightarrow> js) @
             rest_queryPrompt_7)"
    if "to_string (or_else nsi (JStr [])) = Inr i" "to_string (or_else desc (JStr [])) = Inr d"
      "to_string (own query ''title'') = Inr t" "to_string (own query ''note_text'') = Inr n"
      "get_prop (own query ''queryBody'') ''fields'' = Inr fl" "to_string fl = Inr f"
    for query desc nsi i d t n fl f
    using sdk_context_renders [OF that(1,2) _ that(3) _ that(4) _ that(5,6),
        of "JObj query" "own query ''queryData''"]
      getQuerySummaryPrompt_renders [OF that(1,2) _ that(3) _ that(4) _ that(5,6),
        of "JObj query" "own query ''queryData''"]
    by simp
  show ?thesis
  proof (intro conjI impI; elim conjE)
    assume "map_of b ''nextStepsInstructions'' = None"
      "to_string (own b ''querySummaries'') = Inr s" "to_string (own b ''queryResults'') = Inr r"
    then show "rest_prompt GenerateQuerySuggestions b =
        Inr (rest_querySuggestionsPromptData_1 @ ''undefined'' @
             rest_querySuggestionsPromptData_2 @ s @
             rest_querySuggestionsPromptData_3 @ r @
             rest_querySuggestionsPromptData_4 @ s @
             rest_querySuggestionsPromptData_5 @ ''undefined'' @
             rest_querySuggestionsPromptData_6)"
      by (simp add: own_absent rest_querySuggestionsPromptData_def)
  next
    assume "map_of b ''querySummaries'' = None"
      "to_string (own b ''nextStepsInstructions'') = Inr i"
      "to_string (own b ''queryResults'') = Inr r"
    then show "rest_prompt GenerateQuerySuggestions b =
        Inr (rest_querySuggestionsPromptData_1 @ i @
             rest_querySuggestionsPromptData_2 @ ''undefined'' @
             rest_querySuggestionsPromptData_3 @ r @
             rest_querySuggestionsPromptData_4 @ ''undefined'' @
             rest_querySuggestionsPromptData_5 @ i @
             rest_querySuggestionsPromptData_6)"
      by (simp add: own_absent rest_querySuggestionsPromptData_def)
  next
    assume "map_of b ''queryResults'' = None"
      "to_string (own b ''nextStepsInstructions'') = Inr i"
      "to_string (own b ''querySummaries'') = Inr s"
    then show "rest_prompt GenerateQuerySuggestions b =
        Inr (rest_querySuggestionsPromptData_1 @ i @
             rest_querySuggestionsPromptData_2 @ s @
             rest_querySuggestionsPromptData_3 @ ''undefined'' @
             rest_querySuggestionsPromptData_4 @ s @
             rest_querySuggestionsPromptData_5 @ i @
             rest_querySuggestionsPromptData_6)"
      by (simp add: own_absent rest_querySuggestionsPromptData_def)
  next
    assume "map_of b ''nextStepsInstructions'' = None"
      "call_join (own b ''querySummaries'') ''\<newline>'' = Inr joined"
    then show "sdk_prompt GenerateSummary b =
        Inr (sdk_finalPromptData_1 @ joined @ sdk_finalPromptData_2 @ ''undefined'' @
             sdk_finalPromptData_3)"
      and "rest_prompt GenerateSummary b =
        Inr (rest_finalPromptData_1 @ joined @ rest_finalPromptData_2 @ ''undefined'' @
             rest_finalPromptData_3)"
      by (simp_all add: own_absent sdk_finalPromptData_def rest_finalPromptData_def)
  qed (use rendered undefined_text in \<open>simp_all add: own_absent\<close>)
qed

theorem missing_fields_render_undefined_witness:
  "map_of suggestions_without_instructions ''nextStepsInstructions'' = None \<and>
   rest_prompt GenerateQuerySuggestions suggestions_without_instructions =
     Inr (rest_querySuggestionsPromptData_1 @ ''undefined'' @
          rest_querySuggestionsPromptData_2 @ ''summaries'' @
          rest_querySuggestionsPromptData_3 @ ''rows'' @
          rest_querySuggestionsPromptData_4 @ ''summaries'' @
          rest_querySuggestionsPromptData_5 @ ''undefined'' @
          rest_querySuggestionsPromptData_6) \<and>
   map_of summary_without_instructions ''nextStepsInstructions'' = None \<and>
   sdk_prompt GenerateSummary summary_without_instructions =
     Inr (sdk_finalPromptData_1 @ ''A\<newline>B'' @ sdk_finalPromptData_2 @ ''undefined'' @
          sdk_finalPromptData_3) \<and>
   rest_prompt GenerateSummary summary_without_instructions =
     Inr (rest_finalPromptData_1 @ ''A\<newline>B'' @ rest_finalPromptData_2 @ ''undefined'' @
          rest_finalPromptData_3) \<and>
   map_of untitled_query ''title'' = None \<and>
   sdk_context (own untitled_query_request ''query'')
       (own untitled_query_request ''description'')
       (own untitled_query_request ''nextStepsInstructions'') =
     Inr (sdk_context_1 @ ''tips'' @ sdk_context_2 @ ''Traffic by source'' @ sdk_context_3 @
          ''undefined'' @ sdk_context_4 @ ''Query Note: weekly'' @ sdk_context_5 @
          ''source, amount'' @ sdk_context_6 @ ''[]'' @ sdk_context_7) \<and>
   rest_prompt GenerateQuerySummary untitled_query_request =
     Inr (rest_queryPrompt_1 @ ''tips'' @ rest_queryPrompt_2 @ ''Traffic by source'' @
          rest_queryPrompt_3 @ ''undefined'' @ rest_queryPrompt_4 @ ''Query Note: weekly'' @
          rest_queryPrompt_5 @ ''source, amount'' @ rest_queryPrompt_6 @ ''[]'' @
          rest_queryPrompt_7)"
proof -
  have a: "map_of suggestions_without_instructions ''nextStepsInstructions'' = None \<and>
      to_string (own suggestions_without_instructions ''querySummaries'') = Inr ''summaries'' \<and>
      to_string (own suggestions_without_instructions ''queryResults'') = Inr ''rows''"
    by (simp add: suggestions_without_instructions_def own_def)
  have b: "map_of summary_without_instructions ''nextStepsInstructions'' = None \<and>
      call_join (own summary_without_instructions ''querySummaries'') ''\<newline>'' = Inr ''A\<newline>B''"
    by (simp add: summary_without_instructions_def own_def)
  have c: "own untitled_query_request ''query'' = JObj untitled_query \<and>
      to_string (or_else (own untitled_query_request ''nextStepsInstructions'') (JStr [])) =
        Inr ''tips'' \<and>
      to_string (or_else (own untitled_query_request ''description'') (JStr [])) =
        Inr ''Traffic by source'' \<and>
      map_of untitled_query ''title'' = None \<and>
      to_string (own untitled_query ''note_text'') = Inr ''weekly'' \<and>
      get_prop (own untitled_query ''queryBody'') ''fields'' = Inr (JStr ''source, amount'') \<and>
      to_string (JStr ''source, amount'') = Inr ''source, amount''"
    by (simp add: untitled_query_request_def untitled_query_def own_def or_else_def)
  have data: "own untitled_query ''queryData'' = JArr []"
    and note_text: "own untitled_query ''note_text'' = JStr ''weekly''"
    by (simp_all add: untitled_query_def own_def)
  from missing_fields_render_undefined [of suggestions_without_instructions
      "''summaries''" "''rows''"] a
  have first: "rest_prompt GenerateQuerySuggestions suggestions_without_instructions =
     Inr (rest_querySuggestionsPromptData_1 @ ''undefined'' @
          rest_querySuggestionsPromptData_2 @ ''summaries'' @
          rest_querySuggestionsPromptData_3 @ ''rows'' @
          rest_querySuggestionsPromptData_4 @ ''summaries'' @
          rest_querySuggestionsPromptData_5 @ ''undefined'' @
          rest_querySuggestionsPromptData_6)"
    by blast
  from missing_fields_render_undefined [of summary_without_instructions _ _ _ "''A\<newline>B''"] b
  have second: "sdk_prompt GenerateSummary summary_without_instructions =
     Inr (sdk_finalPromptData_1 @ ''A\<newline>B'' @ sdk_finalPromptData_2 @ ''undefined'' @
          sdk_finalPromptData_3) \<and>
   rest_prompt GenerateSummary summary_without_instructions =
     Inr (rest_finalPromptData_1 @ ''A\<newline>B'' @ rest_finalPromptData_2 @ ''undefined'' @
          rest_finalPromptData_3)"
    by blast
  from missing_fields_render_undefined [of untitled_query_request _ _ "''tips''" _
      untitled_query "''Traffic by source''" "''weekly''" "JStr ''source, amount''"
      "''source, amount''"] c
  have third: "sdk_context (own untitled_query_request ''query'')
       (own untitled_query_request ''description'')
       (own untitled_query_request ''nextStepsInstructions'') =
        Inr (sdk_context_1 @ ''tips'' @ sdk_context_2 @ ''Traffic by source'' @
             sdk_context_3 @ ''undefined'' @
             sdk_context_4 @ (''Query Note: '' @ ''weekly'') @ sdk_context_5 @
             ''source, amount'' @ sdk_context_6 @
             (case json_stringify (own untitled_query ''queryData'') of
                None \<Rightarrow> ''undefined'' | Some js \<Rightarrow> js) @
             sdk_context_7) \<and>
      rest_prompt GenerateQuerySummary untitled_query_request =
        Inr (rest_queryPrompt_1 @ ''tips'' @ rest_queryPrompt_2 @ ''Traffic by source'' @
             rest_queryPrompt_3 @ ''undefined'' @ rest_queryPrompt_4 @
             (if own untitled_query ''note_text'' = JStr [] \<or>
                 own untitled_query ''note_text'' = JNull
              then [] else ''Query Note: '' @ ''weekly'') @
             rest_queryPrompt_5 @ ''source, amount'' @ rest_queryPrompt_6 @
             (case json_stringify (own untitled_query ''queryData'') of
                None \<Rightarrow> ''undefined'' | Some js \<Rightarrow> js) @
             rest_queryPrompt_7)"
    by blast
  from first second third a b c show ?thesis
    by (simp add: data note_text)
qed

section \<open>The two variants side by side\<close>

lemma final_first_pieces_differ: "sdk_finalPromptData_1 @ x \<noteq> rest_finalPromptData_1 @ y"
  by (simp add: sdk_finalPromptData_1_def rest_finalPromptData_1_def)

lemma final_pieces_compared:
  "sdk_finalPromptData_1 \<noteq> rest_finalPromptData_1"
  "sdk_finalPromptData_2 \<noteq> rest_finalPromptData_2"
  "sdk_finalPromptData_3 = rest_finalPromptData_3"
  by (simp_all add: sdk_finalPromptData_1_def rest_finalPromptData_1_def
      sdk_finalPromptData_2_def rest_finalPromptData_2_def
      sdk_finalPromptData_3_def rest_finalPromptData_3_def)

text \<open>
  C7, as the claim states it, fails: on the same input the dashboard-summary prompts of
  the two variants are different texts.
\<close>

theorem variants_render_different_prompts:
  "sdk_prompt GenerateSummary summary_request =
     Inr (sdk_finalPromptData_1 @ ''A\<newline>B'' @ sdk_finalPromptData_2 @ ''tips'' @
          sdk_finalPromptData_3) \<and>
   rest_prompt GenerateSummary summary_request =
     Inr (rest_finalPromptData_1 @ ''A\<newline>B'' @ rest_finalPromptData_2 @ ''tips'' @
          rest_finalPromptData_3) \<and>
   sdk_prompt GenerateSummary summary_request \<noteq> rest_prompt GenerateSummary summary_request"
  by (simp add: summary_request_def own_def sdk_finalPromptData_def rest_finalPromptData_def
      final_first_pieces_differ)

lemma context_same_error:
  "sdk_context q d n = Inl e \<longleftrightarrow> getQuerySummaryPrompt q d n = Inl e"
  unfolding sdk_context_def getQuerySummaryPrompt_def
  by (auto simp: bind_err_def strict_eq_string strict_eq_null split: sum.splits if_splits)

lemma final_prompts_same_error:
  "sdk_finalPromptData qs n = Inl e \<longleftrightarrow> rest_finalPromptData qs n = Inl e"
  unfolding sdk_finalPromptData_def rest_finalPromptData_def
  by (auto simp: bind_err_def split: sum.splits)

lemma context_same_slots:
  assumes "sdk_context q d n = Inr c"
    and "get_prop q ''note_text'' = Inr nt" and "nt \<noteq> JStr []" and "nt \<noteq> JNull"
  shows "\<exists>a b t ns f qd.
           c = sdk_context_1 @ a @ sdk_context_2 @ b @ sdk_context_3 @ t @ sdk_context_4 @
               ns @ sdk_context_5 @ f @ sdk_context_6 @ qd @ sdk_context_7 \<and>
           getQuerySummaryPrompt q d n =
             Inr (rest_queryPrompt_1 @ a @ rest_queryPrompt_2 @ b @ rest_queryPrompt_3 @ t @
                  rest_queryPrompt_4 @ ns @ rest_queryPrompt_5 @ f @ rest_queryPrompt_6 @
                  qd @ rest_queryPrompt_7)"
proof -
  from assms obtain a b title t ns qb fl f qd where reads:
    "to_string (or_else n (JStr [])) = Inr a" "to_string (or_else d (JStr [])) = Inr b"
    "get_prop q ''title'' = Inr title" "to_string title = Inr t"
    "to_string nt = Inr ns" "get_prop q ''queryBody'' = Inr qb"
    "get_prop qb ''fields'' = Inr fl" "to_string fl = Inr f"
    "get_prop q ''queryData'' = Inr qd"
    and c: "c = sdk_context_1 @ a @ sdk_context_2 @ b @ sdk_context_3 @ t @ sdk_context_4 @
                (''Query Note: '' @ ns) @ sdk_context_5 @ f @ sdk_context_6 @
                (case json_stringify qd of None \<Rightarrow> ''undefined'' | Some s \<Rightarrow> s) @
                sdk_context_7"
    unfolding sdk_context_def
    by (auto simp: bind_err_eq_Inr strict_eq_string strict_eq_null)
  have "getQuerySummaryPrompt q d n =
      Inr (rest_queryPrompt_1 @ a @ rest_queryPrompt_2 @ b @ rest_queryPrompt_3 @ t @
           rest_queryPrompt_4 @ (''Query Note: '' @ ns) @ rest_queryPrompt_5 @ f @
           rest_queryPrompt_6 @
           (case json_stringify qd of None \<Rightarrow> ''undefined'' | Some s \<Rightarrow> s) @
           rest_queryPrompt_7)"
    using assms(2-4) reads
    by (simp add: getQuerySummaryPrompt_def strict_eq_string strict_eq_null)
  with c show ?thesis
    by (intro exI conjI)
qed

lemma final_prompts_same_slots:
  assumes "sdk_finalPromptData qs n = Inr p"
  shows "\<exists>s t. p = sdk_finalPromptData_1 @ s @ sdk_finalPromptData_2 @ t @ sdk_finalPromptData_3 \<and>
           rest_finalPromptData qs n =
             Inr (rest_finalPromptData_1 @ s @ rest_finalPromptData_2 @ t @ rest_finalPromptData_3)"
  using assms
  unfolding sdk_finalPromptData_def rest_finalPromptData_def
  by (auto simp: bind_err_eq_Inr)

lemma final_prompts_never_equal:
  assumes "sdk_finalPromptData qs n = Inr p"
  shows "rest_finalPromptData qs n \<noteq> Inr p"
  using final_prompts_same_slots [OF assms] final_first_pieces_differ by auto

text \<open>
  C7, amended. The two variants do not render equal prompts, but their builders read
  the same fields and splice the same texts. For the dashboard-summary prompt: the two
  builders fail on the same inputs with the same error; where they render, they splice
  the same two texts into the same places in the same order; the fixed text after the
  last place is the same in both variants, the fixed texts before the first place and
  between the two places are not, and the two prompts are never equal. For the
  query-summary prompt: the SDK \<^verbatim>\<open>context\<close> statement and the REST builder fail on the
  same inputs with the same error and, for a note that is neither the empty string nor
  \<^verbatim>\<open>null\<close>, splice the same six texts into their places in the same order.
\<close>

theorem variants_agree_up_to_fixed_text:
  "(sdk_finalPromptData qs n = Inl e \<longleftrightarrow> rest_finalPromptData qs n = Inl e) \<and>
   (\<forall>p. sdk_finalPromptData qs n = Inr p \<longrightarrow>
      (\<exists>s t. p = sdk_finalPromptData_1 @ s @ sdk_finalPromptData_2 @ t @
                   sdk_finalPromptData_3 \<and>
             rest_finalPromptData qs n =
               Inr (rest_finalPromptData_1 @ s @ rest_finalPromptData_2 @ t @
                    rest_finalPromptData_3)) \<and>
      rest_finalPromptData qs n \<noteq> Inr p) \<and>
   sdk_finalPromptData_1 \<noteq> rest_finalPromptData_1 \<and>
   sdk_finalPromptData_2 \<noteq> rest_finalPromptData_2 \<and>
   sdk_finalPromptData_3 = rest_finalPromptData_3 \<and>
   (sdk_context q d n = Inl e \<longleftrightarrow> getQuerySummaryPrompt q d n = Inl e) \<and>
   (\<forall>c nt. sdk_context q d n = Inr c \<and> get_prop q ''note_text'' = Inr nt \<and>
            nt \<noteq> JStr [] \<and> nt \<noteq> JNull \<longrightarrow>
      (\<exists>a b t ns f qd.
         c = sdk_context_1 @ a @ sdk_context_2 @ b @ sdk_context_3 @ t @ sdk_context_4 @
             ns @ sdk_context_5 @ f @ sdk_context_6 @ qd @ sdk_context_7 \<and>
         getQuerySummaryPrompt q d n =
           Inr (rest_queryPrompt_1 @ a @ rest_queryPrompt_2 @ b @ rest_queryPrompt_3 @ t @
                rest_queryPrompt_4 @ ns @ rest_queryPrompt_5 @ f @ rest_queryPrompt_6 @
                qd @ rest_queryPrompt_7)))"
proof -
  have a: "\<forall>p. sdk_finalPromptData qs n = Inr p \<longrightarrow>
      (\<exists>s t. p = sdk_finalPromptData_1 @ s @ sdk_finalPromptData_2 @ t @
                   sdk_finalPromptData_3 \<and>
             rest_finalPromptData qs n =
               Inr (rest_finalPromptData_1 @ s @ rest_finalPromptData_2 @ t @
                    rest_finalPromptData_3)) \<and>
      rest_finalPromptData qs n \<noteq> Inr p"
    using final_prompts_same_slots final_prompts_never_equal by blast
  have b: "\<forall>c nt. sdk_context q d n = Inr c \<and> get_prop q ''note_text'' = Inr nt \<and>
            nt \<noteq> JStr [] \<and> nt \<noteq> JNull \<longrightarrow>
      (\<exists>a b t ns f qd.
         c = sdk_context_1 @ a @ sdk_context_2 @ b @ sdk_context_3 @ t @ sdk_context_4 @
             ns @ sdk_context_5 @ f @ sdk_context_6 @ qd @ sdk_context_7 \<and>
         getQuerySummaryPrompt q d n =
           Inr (rest_queryPrompt_1 @ a @ rest_queryPrompt_2 @ b @ rest_queryPrompt_3 @ t @
                rest_queryPrompt_4 @ ns @ rest_queryPrompt_5 @ f @ rest_queryPrompt_6 @
                qd @ rest_queryPrompt_7))"
    using context_same_slots by blast
  show ?thesis
    using final_prompts_same_error [of qs n e] context_same_error [of q d n e] a b
      final_pieces_compared
    by (simp only: simp_thms not_False_eq_True)
qed

theorem variants_agree_up_to_fixed_text_witness:
  "sdk_finalPromptData (JArr [JStr ''A'', JStr ''B'']) (JStr ''tips'') =
     Inr (sdk_finalPromptData_1 @ ''A\<newline>B'' @ sdk_finalPromptData_2 @ ''tips'' @
          sdk_finalPromptData_3) \<and>
   rest_finalPromptData (JArr [JStr ''A'', JStr ''B'']) (JStr ''tips'') =
     Inr (rest_finalPromptData_1 @ ''A\<newline>B'' @ rest_finalPromptData_2 @ ''tips'' @
          rest_finalPromptData_3) \<and>
   rest_finalPromptData (JArr [JStr ''A'', JStr ''B'']) (JStr ''tips'') \<noteq>
     Inr (sdk_finalPromptData_1 @ ''A\<newline>B'' @ sdk_finalPromptData_2 @ ''tips'' @
          sdk_finalPromptData_3) \<and>
   get_prop (web_traffic (JStr ''weekly'')) ''note_text'' = Inr (JStr ''weekly'') \<and>
   sdk_context (web_traffic (JStr ''weekly'')) JUndefined (JStr ''tips'') =
     Inr (sdk_context_1 @ ''tips'' @ sdk_context_2 @ [] @ sdk_context_3 @ ''Web Traffic'' @
          sdk_context_4 @ ''Query Note: weekly'' @ sdk_context_5 @ ''source, amount'' @
          sdk_context_6 @ ''[]'' @ sdk_context_7) \<and>
   getQuerySummaryPrompt (web_traffic (JStr ''weekly'')) JUndefined (JStr ''tips'') =
     Inr (rest_queryPrompt_1 @ ''tips'' @ rest_queryPrompt_2 @ [] @ rest_queryPrompt_3 @
          ''Web Traffic'' @ rest_queryPrompt_4 @ ''Query Note: weekly'' @
          rest_queryPrompt_5 @ ''source, amount'' @ rest_queryPrompt_6 @ ''[]'' @
          rest_queryPrompt_7)"
proof -
  let ?p = "sdk_finalPromptData_1 @ ''A\<newline>B'' @ sdk_finalPromptData_2 @ ''tips'' @
          sdk_finalPromptData_3"
  have s: "sdk_finalPromptData (JArr [JStr ''A'', JStr ''B'']) (JStr ''tips'') = Inr ?p"
    by (simp add: sdk_finalPromptData_def)
  have r: "rest_finalPromptData (JArr [JStr ''A'', JStr ''B'']) (JStr ''tips'') =
     Inr (rest_finalPromptData_1 @ ''A\<newline>B'' @ rest_finalPromptData_2 @ ''tips'' @
          rest_finalPromptData_3)"
    by (simp add: rest_finalPromptData_def)
  have c: "sdk_context (web_traffic (JStr ''weekly'')) JUndefined (JStr ''tips'') =
     Inr (sdk_context_1 @ ''tips'' @ sdk_context_2 @ [] @ sdk_context_3 @ ''Web Traffic'' @
          sdk_context_4 @ ''Query Note: weekly'' @ sdk_context_5 @ ''source, amount'' @
          sdk_context_6 @ ''[]'' @ sdk_context_7)"
    by (simp add: web_traffic_def own_def sdk_context_def or_else_def)
  have g: "getQuerySummaryPrompt (web_traffic (JStr ''weekly'')) JUndefined (JStr ''tips'') =
     Inr (rest_queryPrompt_1 @ ''tips'' @ rest_queryPrompt_2 @ [] @ rest_queryPrompt_3 @
          ''Web Traffic'' @ rest_queryPrompt_4 @ ''Query Note: weekly'' @
          rest_queryPrompt_5 @ ''source, amount'' @ rest_queryPrompt_6 @ ''[]'' @
          rest_queryPrompt_7)"
    by (simp add: web_traffic_def own_def getQuerySummaryPrompt_def or_else_def)
  from variants_agree_up_to_fixed_text [of "JArr [JStr ''A'', JStr ''B'']" "JStr ''tips''"
      TypeError "web_traffic (JStr ''weekly'')" JUndefined] s
  have "rest_finalPromptData (JArr [JStr ''A'', JStr ''B'']) (JStr ''tips'') \<noteq> Inr ?p"
    by blast
  with s r c g show ?thesis
    by (simp only: web_traffic_reads simp_thms)
qed


end
